theory Spec2Isabelle
  imports Complex_Main
begin

section \<open>Data model of \<^verbatim>\<open>data_cleaner.py\<close>\<close>

subsection \<open>Specification values and lookup\<close>

text \<open>
  The specification is the dict that \<^verbatim>\<open>json.load\<close> returns. Its values are confined to
  the kinds the recognised keys take: booleans, strings and lists of strings; \<open>PNone\<close> is
  Python's \<^verbatim>\<open>None\<close>, which is what \<^verbatim>\<open>dict.get\<close> returns for an absent key.
\<close>

datatype pyval = PNone | PBool bool | PStr string | PList "string list"

type_synonym config = "string \<rightharpoonup> pyval"

definition cfg_get :: "config \<Rightarrow> string \<Rightarrow> pyval" where
  "cfg_get c k = (case c k of None \<Rightarrow> PNone | Some v \<Rightarrow> v)"

text \<open>Python truthiness, as used by \<^verbatim>\<open>if x\<close> and \<^verbatim>\<open>if not x\<close>.\<close>

fun truthy :: "pyval \<Rightarrow> bool" where
  "truthy PNone = False"
| "truthy (PBool b) = b"
| "truthy (PStr s) = (s \<noteq> [])"
| "truthy (PList xs) = (xs \<noteq> [])"

text \<open>
  \<^verbatim>\<open>for x in v\<close> and \<^verbatim>\<open>len(v)\<close>: a list yields its elements, a string its characters
  (each a string of length one); \<^verbatim>\<open>None\<close> and booleans raise \<^verbatim>\<open>TypeError\<close>,
  which is the result \<open>None\<close> here.
\<close>

fun py_iter :: "pyval \<Rightarrow> string list option" where
  "py_iter (PList xs) = Some xs"
| "py_iter (PStr s) = Some (map (\<lambda>c. [c]) s)"
| "py_iter PNone = None"
| "py_iter (PBool b) = None"

fun py_len :: "pyval \<Rightarrow> nat option" where
  "py_len (PList xs) = Some (length xs)"
| "py_len (PStr s) = Some (length s)"
| "py_len PNone = None"
| "py_len (PBool b) = None"

definition DEFAULT_CFG :: config where
  "DEFAULT_CFG = map_of
     [(''input_file'', PStr ''data/my_data.csv''),
      (''output_file'', PStr ''data/my_data_clean1.csv''),
      (''delimiter_in'', PStr '',''),
      (''delimiter_out'', PStr '',''),
      (''input_file_profile'', PStr ''profiles/input_file.html''),
      (''output_file_profile'', PStr ''profiles/output_file.html''),
      (''summary_file'', PStr ''''),
      (''drop_repeat_headers'', PBool True),
      (''drop_duplicates'', PBool True),
      (''drop_na'', PBool True),
      (''clean_types'', PBool True),
      (''export_output_file'', PBool True),
      (''str_col'', PList [''Product'', ''Purchase Address'']),
      (''float_col'', PList []),
      (''int_col'', PList []),
      (''numeric_col'', PList [''Order ID'', ''Quantity Ordered'', ''Price Each'']),
      (''datetime_col'', PList [''Order Date'']),
      (''datetime_format'', PList [''%m/%d/%y %H:%M'']),
      (''drop_col'', PList []),
      (''quantile_ouliers_col'', PList [])]"

subsection \<open>Paths\<close>

text \<open>
  A \<^verbatim>\<open>pathlib\<close> path is its tuple of parts; an absolute path starts with the part
  \<open>''/''\<close>. Two paths are equal in Python exactly when their parts are.
  \<open>Path\<close> builds the parts of a string: it splits at slashes and drops empty parts and
  single dots, as \<^verbatim>\<open>PurePosixPath\<close> does.
\<close>

type_synonym path = "string list"

fun split_on :: "char \<Rightarrow> string \<Rightarrow> string list" where
  "split_on d [] = [[]]"
| "split_on d (c # cs) =
     (if c = d then [] # split_on d cs
      else (case split_on d cs of [] \<Rightarrow> [[c]] | w # ws \<Rightarrow> (c # w) # ws))"

definition Path :: "string \<Rightarrow> path" where
  "Path s = (if s \<noteq> [] \<and> hd s = CHR ''/'' then [''/''] else [])
            @ filter (\<lambda>p. p \<noteq> [] \<and> p \<noteq> ''.'') (split_on (CHR ''/'') s)"

definition is_absolute :: "path \<Rightarrow> bool" where
  "is_absolute p = (case p of [] \<Rightarrow> False | c # cs \<Rightarrow> c = ''/'')"

text \<open>The operator \<^verbatim>\<open>p / q\<close>: an absolute right operand replaces the left one.\<close>

definition path_div :: "path \<Rightarrow> path \<Rightarrow> path" where
  "path_div p q = (if is_absolute q then q else p @ q)"

definition absolute :: "path \<Rightarrow> path \<Rightarrow> path" where
  "absolute cwd p = (if is_absolute p then p else cwd @ p)"

text \<open>
  \<^verbatim>\<open>BASE_DIR = Path(__name__).parent\<close>: the module name has a single part, so its
  parent is the empty relative path, which denotes the working directory.
\<close>

definition BASE_DIR :: path where
  "BASE_DIR = []"

text \<open>
  \<^verbatim>\<open>base / v\<close> for a specification value \<open>v\<close>: only a string can be joined to a path;
  every other value raises \<^verbatim>\<open>TypeError\<close> (the result \<open>None\<close>).
\<close>

fun path_div_val :: "path \<Rightarrow> pyval \<Rightarrow> path option" where
  "path_div_val p (PStr s) = Some (path_div p (Path s))"
| "path_div_val p PNone = None"
| "path_div_val p (PBool b) = None"
| "path_div_val p (PList xs) = None"

subsection \<open>The table\<close>

text \<open>
  A cell is missing (\<^verbatim>\<open>NaN\<close>, \<^verbatim>\<open>NaT\<close>), a number, a string or a point in time.
  Numbers are exact rationals here: the rounding of IEEE doubles is not modelled.
  The table keeps its column names and its rows in order.
\<close>

datatype cell = NA | Num rat | Str string | Date int

record dataframe =
  columns :: "string list"
  rows :: "cell list list"

fun col_index :: "string list \<Rightarrow> string \<Rightarrow> nat option" where
  "col_index [] c = None"
| "col_index (x # xs) c =
     (if x = c then Some 0 else map_option Suc (col_index xs c))"

text \<open>A row shorter than the header is padded with missing cells, as \<^verbatim>\<open>read_csv\<close> pads it.\<close>

definition cell_at :: "cell list \<Rightarrow> nat \<Rightarrow> cell" where
  "cell_at r i = (if i < length r then r ! i else NA)"

text \<open>\<^verbatim>\<open>df[col]\<close>: the cells of a column, or \<^verbatim>\<open>KeyError\<close> (the result \<open>None\<close>).\<close>

definition get_col :: "dataframe \<Rightarrow> string \<Rightarrow> cell list option" where
  "get_col d c = map_option (\<lambda>i. map (\<lambda>r. cell_at r i) (rows d)) (col_index (columns d) c)"

fun put_cells :: "nat \<Rightarrow> cell list list \<Rightarrow> cell list \<Rightarrow> cell list list" where
  "put_cells i [] vs = []"
| "put_cells i (r # rs) [] = r # rs"
| "put_cells i (r # rs) (v # vs) = r[i := v] # put_cells i rs vs"

text \<open>\<^verbatim>\<open>df[col] = values\<close> for a column that exists: the cells are replaced in place.\<close>

definition set_col :: "dataframe \<Rightarrow> string \<Rightarrow> cell list \<Rightarrow> dataframe" where
  "set_col d c vs =
     (case col_index (columns d) c of
        None \<Rightarrow> d
      | Some i \<Rightarrow> d\<lparr>rows := put_cells i (rows d) vs\<rparr>)"

definition remove_nth :: "nat \<Rightarrow> 'a list \<Rightarrow> 'a list" where
  "remove_nth i xs = take i xs @ drop (Suc i) xs"

text \<open>\<^verbatim>\<open>df.drop(labels=col, axis="columns")\<close>, or \<^verbatim>\<open>KeyError\<close> (the result \<open>None\<close>).\<close>

definition drop_column :: "dataframe \<Rightarrow> string \<Rightarrow> dataframe option" where
  "drop_column d c =
     map_option
       (\<lambda>i. \<lparr>columns = remove_nth i (columns d), rows = map (remove_nth i) (rows d)\<rparr>)
       (col_index (columns d) c)"

text \<open>\<^verbatim>\<open>df[valid_rows]\<close>: the rows whose entry in the boolean column is true.\<close>

definition select_rows :: "dataframe \<Rightarrow> bool list \<Rightarrow> dataframe" where
  "select_rows d keep = d\<lparr>rows := map fst (filter snd (zip (rows d) keep))\<rparr>"

subsection \<open>Exceptions, the audit log and the library interface\<close>

datatype exn =
  KeyError string | TypeError | AttributeError | ValueError | OverflowError
  | FileNotFoundError | JSONDecodeError | UnicodeDecodeError | IOError

text \<open>
  The handlers of the source name a class and so take its subclasses too:
  \<^verbatim>\<open>IOError\<close> is \<^verbatim>\<open>OSError\<close>, of which \<^verbatim>\<open>FileNotFoundError\<close> is a subclass, and
  \<^verbatim>\<open>JSONDecodeError\<close> and \<^verbatim>\<open>UnicodeDecodeError\<close> are subclasses of
  \<^verbatim>\<open>ValueError\<close>, neither of the other.
\<close>

fun is_io_error :: "exn \<Rightarrow> bool" where
  "is_io_error IOError = True"
| "is_io_error FileNotFoundError = True"
| "is_io_error e = False"

fun is_value_error :: "exn \<Rightarrow> bool" where
  "is_value_error ValueError = True"
| "is_value_error JSONDecodeError = True"
| "is_value_error UnicodeDecodeError = True"
| "is_value_error e = False"

datatype level = DEBUG | INFO | WARNING | ERROR

text \<open>One constructor for each message the cleaner writes, with the values it formats in.\<close>

datatype msg =
  Config_not_found path
  | Config_not_valid path
  | Loaded_config path
  | Failed_to_read_csv
  | Loaded_data path
  | Profiling_source path
  | Profiling_cleaned path
  | Profiling_finished
  | Removing_headers
  | Removing_rows
  | Running_to_numeric string
  | Running_astype string string
  | Astype_failed string string
  | Datetime_skipped nat nat
  | Running_to_datetime string string
  | Dropping_na
  | Dropping_columns pyval
  | Column_not_in_dataframe string

type_synonym audit = "(level \<times> msg) list"

datatype dtype = T_int | T_float | T_str

text \<open>
  The functions of the table library that convert values are parameters of the model:
  \<^verbatim>\<open>read_csv(path, sep)\<close>; \<^verbatim>\<open>to_numeric(\<dots>, errors="coerce")\<close> and
  \<^verbatim>\<open>to_datetime(\<dots>, format, errors="coerce")\<close>, which act cell by cell and do not
  raise; and \<^verbatim>\<open>Series.astype\<close>, which converts a whole column or raises.
\<close>

record pandas =
  read_csv :: "path \<Rightarrow> pyval \<Rightarrow> exn + dataframe"
  to_numeric :: "cell \<Rightarrow> cell"
  to_datetime :: "string \<Rightarrow> cell \<Rightarrow> cell"
  astype :: "dtype \<Rightarrow> cell list \<Rightarrow> exn + cell list"

subsection \<open>The cleaner object\<close>

record cleaner =
  cfg :: config
  cfg_file :: path
  local_path :: path
  input_profile :: path
  output_profile :: path
  df :: dataframe
  df_changed :: bool
  na_safe :: bool
  logged :: audit

text \<open>
  A method either returns the updated object or raises; the exception carries the object
  as it was when raised, since the table and the log keep what earlier steps did.
\<close>

type_synonym 'a result = "(exn \<times> cleaner) + 'a"

definition log_msg :: "level \<Rightarrow> msg \<Rightarrow> cleaner \<Rightarrow> cleaner" where
  "log_msg l m s = s\<lparr>logged := logged s @ [(l, m)]\<rparr>"

definition then_run :: "cleaner result \<Rightarrow> (cleaner \<Rightarrow> cleaner result) \<Rightarrow> cleaner result" where
  "then_run r f = (case r of Inl e \<Rightarrow> Inl e | Inr s \<Rightarrow> f s)"

section \<open>Loading the specification\<close>

text \<open>
  What \<^verbatim>\<open>json.load\<close> returns: a dict for a JSON object, or some other value (a list,
  a string, a number, a boolean or \<^verbatim>\<open>None\<close>), which has no \<^verbatim>\<open>get\<close>.
\<close>

datatype json = Object config | Other_json

text \<open>
  The file system as the loader sees it. An absolute path holds no file, or a file that
  is one of: UTF-8 text that is valid JSON; UTF-8 text that \<^verbatim>\<open>json.load\<close> rejects
  with \<^verbatim>\<open>JSONDecodeError\<close>; bytes that are not UTF-8, whose reading raises
  \<^verbatim>\<open>UnicodeDecodeError\<close>; a file that \<^verbatim>\<open>open\<close> refuses with an
  \<^verbatim>\<open>OSError\<close> other than \<^verbatim>\<open>FileNotFoundError\<close>. Relative paths are opened
  against the working directory.
\<close>

datatype content = Json json | Not_json | Not_utf8 | No_permission

type_synonym filesystem = "path \<rightharpoonup> content"

definition default_specs :: "path \<Rightarrow> path" where
  "default_specs cwd = absolute cwd (path_div BASE_DIR (Path ''default_specs.json''))"

text \<open>
  \<^verbatim>\<open>create_default_config\<close>: the content of \<^verbatim>\<open>default_specs.json\<close> when that file
  exists (no exception of reading it is caught), otherwise \<open>DEFAULT_CFG\<close>, which is
  written there.
\<close>

definition create_default_config :: "filesystem \<Rightarrow> path \<Rightarrow> exn + (json \<times> filesystem)" where
  "create_default_config fs cwd =
     (case fs (default_specs cwd) of
        Some (Json j) \<Rightarrow> Inr (j, fs)
      | Some Not_json \<Rightarrow> Inl JSONDecodeError
      | Some Not_utf8 \<Rightarrow> Inl UnicodeDecodeError
      | Some No_permission \<Rightarrow> Inl IOError
      | None \<Rightarrow>
          Inr (Object DEFAULT_CFG, fs(default_specs cwd \<mapsto> Json (Object DEFAULT_CFG))))"

text \<open>
  The \<^verbatim>\<open>try\<close> block of \<^verbatim>\<open>__init__\<close> with its two handlers and the message that follows:
  it yields the specification, \<^verbatim>\<open>cfg_file\<close>, the file system and the messages logged.
  The handlers take \<^verbatim>\<open>FileNotFoundError\<close> and \<^verbatim>\<open>JSONDecodeError\<close>; a file that is
  not UTF-8 or cannot be opened makes the constructor raise.
\<close>

definition load_config ::
  "filesystem \<Rightarrow> path \<Rightarrow> path \<Rightarrow> exn + (json \<times> path \<times> filesystem \<times> audit)" where
  "load_config fs cwd config_file =
     (case fs (absolute cwd config_file) of
        Some (Json j) \<Rightarrow> Inr (j, config_file, fs, [(INFO, Loaded_config config_file)])
      | Some Not_utf8 \<Rightarrow> Inl UnicodeDecodeError
      | Some No_permission \<Rightarrow> Inl IOError
      | None \<Rightarrow>
         (case create_default_config fs cwd of
            Inl e \<Rightarrow> Inl e
          | Inr (c, fs') \<Rightarrow>
              Inr (c, default_specs cwd, fs',
                   [(WARNING, Config_not_found config_file),
                    (INFO, Loaded_config (default_specs cwd))]))
      | Some Not_json \<Rightarrow>
         (case create_default_config fs cwd of
            Inl e \<Rightarrow> Inl e
          | Inr (c, fs') \<Rightarrow>
              Inr (c, default_specs cwd, fs',
                   [(WARNING, Config_not_valid config_file),
                    (INFO, Loaded_config (default_specs cwd))])))"

text \<open>
  \<^verbatim>\<open>csv_read\<close>: the source path is \<^verbatim>\<open>local_path / cfg.get("input_file")\<close>, an empty
  or absent delimiter becomes a comma, and an \<^verbatim>\<open>IOError\<close> is logged and raised again;
  any other exception passes through unlogged.
\<close>

definition csv_read ::
  "pandas \<Rightarrow> path \<Rightarrow> config \<Rightarrow> audit \<Rightarrow> (exn \<times> audit) + (dataframe \<times> audit)" where
  "csv_read pd lp c l =
     (case path_div_val lp (cfg_get c ''input_file'') of
        None \<Rightarrow> Inl (TypeError, l)
      | Some source_path \<Rightarrow>
         (let sep = cfg_get c ''delimiter_in'';
              sep = (if truthy sep then sep else PStr '','')
          in case read_csv pd source_path sep of
               Inl e \<Rightarrow>
                 (if is_io_error e then Inl (e, l @ [(ERROR, Failed_to_read_csv)])
                  else Inl (e, l))
             | Inr df_source \<Rightarrow> Inr (df_source, l @ [(INFO, Loaded_data source_path)])))"

definition parent :: "path \<Rightarrow> path" where
  "parent p = (if p = [''/''] then p else butlast p)"

text \<open>
  \<^verbatim>\<open>__init__\<close> after the logger is set up: load the specification, join the summary
  file and the two profile targets to \<open>BASE_DIR\<close>, read the table, clear both flags.
  A loaded value that is no dict raises \<^verbatim>\<open>AttributeError\<close> at the first lookup.
  Creating directories and log handlers is left out.
\<close>

definition init ::
  "pandas \<Rightarrow> filesystem \<Rightarrow> path \<Rightarrow> path \<Rightarrow> (exn \<times> audit) + (cleaner \<times> filesystem)" where
  "init pd fs cwd config_file =
     (case load_config fs cwd config_file of
        Inl e \<Rightarrow> Inl (e, [])
      | Inr (Other_json, cf, fs', l) \<Rightarrow> Inl (AttributeError, l)
      | Inr (Object c, cf, fs', l) \<Rightarrow>
         (let user_log = cfg_get c ''summary_file'' in
          if truthy user_log \<and> path_div_val BASE_DIR user_log = None then Inl (TypeError, l)
          else
            (case path_div_val BASE_DIR (cfg_get c ''input_file_profile'') of
               None \<Rightarrow> Inl (TypeError, l)
             | Some ip \<Rightarrow>
                (case path_div_val BASE_DIR (cfg_get c ''output_file_profile'') of
                   None \<Rightarrow> Inl (TypeError, l)
                 | Some op \<Rightarrow>
                    (case csv_read pd (parent config_file) c l of
                       Inl e \<Rightarrow> Inl e
                     | Inr (d, l') \<Rightarrow>
                        Inr (\<lparr>cfg = c, cfg_file = cf, local_path = parent config_file,
                              input_profile = ip, output_profile = op, df = d,
                              df_changed = False, na_safe = False, logged = l'\<rparr>, fs'))))))"

section \<open>Profiling target\<close>

text \<open>
  \<^verbatim>\<open>html_profile\<close> returns the path it profiled to. Rendering the report is the
  profiling library's work and is taken to succeed.
\<close>

definition html_profile :: "cleaner \<Rightarrow> (path \<times> cleaner) result" where
  "html_profile s =
     (if \<not> df_changed s then
        (case path_div_val (local_path s) (cfg_get (cfg s) ''input_file_profile'') of
           None \<Rightarrow> Inl (TypeError, s)
         | Some file \<Rightarrow>
             Inr (file, log_msg INFO Profiling_finished (log_msg INFO (Profiling_source file) s)))
      else
        (case path_div_val (local_path s) (cfg_get (cfg s) ''output_file_profile'') of
           None \<Rightarrow> Inl (TypeError, s)
         | Some file \<Rightarrow>
             Inr (file, log_msg INFO Profiling_finished (log_msg INFO (Profiling_cleaned file) s))))"

section \<open>The cleaning stages\<close>

subsection \<open>Repeated headers and duplicate rows\<close>

text \<open>\<^verbatim>\<open>df.eq(df.columns).any(axis=1)\<close>: some cell is the string that names its own column.\<close>

definition is_header_row :: "string list \<Rightarrow> cell list \<Rightarrow> bool" where
  "is_header_row cols r = list_ex (\<lambda>(c, v). v = Str c) (zip cols r)"

definition clean_headers :: "cleaner \<Rightarrow> cleaner result" where
  "clean_headers s =
     (if truthy (cfg_get (cfg s) ''drop_repeat_headers'') then
        (let s1 = (log_msg INFO Removing_headers s)\<lparr>df_changed := True\<rparr>
         in Inr (s1\<lparr>df := (df s1)\<lparr>rows :=
                   filter (\<lambda>r. \<not> is_header_row (columns (df s1)) r) (rows (df s1))\<rparr>\<rparr>))
      else Inr s)"

text \<open>
  \<^verbatim>\<open>drop_duplicates(keep="last")\<close>: of equal rows the last one stays, which is what
  \<open>remdups\<close> does.
\<close>

definition clean_drop_dupplicates :: "cleaner \<Rightarrow> cleaner result" where
  "clean_drop_dupplicates s =
     (if truthy (cfg_get (cfg s) ''drop_duplicates'') then
        (let s1 = (log_msg INFO Removing_rows s)\<lparr>df_changed := True\<rparr>
         in Inr (s1\<lparr>df := (df s1)\<lparr>rows := remdups (rows (df s1))\<rparr>\<rparr>))
      else Inr s)"

subsection \<open>Type conversions\<close>

fun numeric_loop :: "pandas \<Rightarrow> string list \<Rightarrow> cleaner \<Rightarrow> cleaner result" where
  "numeric_loop pd [] s = Inr s"
| "numeric_loop pd (col # cols) s =
     (let s1 = log_msg INFO (Running_to_numeric col) s
      in case get_col (df s1) col of
           None \<Rightarrow> Inl (KeyError col, s1)
         | Some vs \<Rightarrow>
             numeric_loop pd cols (s1\<lparr>df := set_col (df s1) col (map (to_numeric pd) vs)\<rparr>))"

definition clean_numeric_columns :: "pandas \<Rightarrow> cleaner \<Rightarrow> cleaner result" where
  "clean_numeric_columns pd s =
     (if \<not> truthy (cfg_get (cfg s) ''clean_types'') then Inr s
      else
        (let s1 = s\<lparr>df_changed := True\<rparr>
         in case py_iter (cfg_get (cfg s1) ''numeric_col'') of
              None \<Rightarrow> Inl (TypeError, s1)
            | Some cols \<Rightarrow> numeric_loop pd cols s1))"

text \<open>\<^verbatim>\<open>type_map.get(type_str, str)\<close>.\<close>

definition type_map :: "string \<Rightarrow> dtype" where
  "type_map type_str =
     (if type_str = ''int'' then T_int else if type_str = ''float'' then T_float else T_str)"

text \<open>
  The loop of \<^verbatim>\<open>run_astype_conversion\<close>. The \<^verbatim>\<open>try\<close> covers the column lookup and the
  cast; its handler takes \<^verbatim>\<open>ValueError\<close> only, every other exception leaves the loop
  and the method.
\<close>

fun astype_loop :: "pandas \<Rightarrow> string \<Rightarrow> string list \<Rightarrow> cleaner \<Rightarrow> cleaner result" where
  "astype_loop pd type_str [] s = Inr s"
| "astype_loop pd type_str (col # cols) s =
     (let s1 = log_msg INFO (Running_astype type_str col) s
      in case get_col (df s1) col of
           None \<Rightarrow> Inl (KeyError col, s1)
         | Some vs \<Rightarrow>
            (case astype pd (type_map type_str) vs of
               Inr ws \<Rightarrow> astype_loop pd type_str cols (s1\<lparr>df := set_col (df s1) col ws\<rparr>)
             | Inl e \<Rightarrow>
                 (if is_value_error e then
                    astype_loop pd type_str cols (log_msg ERROR (Astype_failed col type_str) s1)
                  else Inl (e, s1))))"

definition cols_choice :: "config \<Rightarrow> string \<Rightarrow> pyval option" where
  "cols_choice c type_str =
     (if type_str = ''int'' then Some (cfg_get c ''int_col'')
      else if type_str = ''float'' then Some (cfg_get c ''float_col'')
      else if type_str = ''str'' then Some (cfg_get c ''str_col'')
      else None)"

definition run_astype_conversion :: "pandas \<Rightarrow> string \<Rightarrow> cleaner \<Rightarrow> cleaner result" where
  "run_astype_conversion pd type_str s =
     (if \<not> truthy (cfg_get (cfg s) ''clean_types'') then Inr s
      else
        (case cols_choice (cfg s) type_str of
           None \<Rightarrow> Inr s
         | Some choice \<Rightarrow>
            (if \<not> truthy choice then Inr s
             else
               (let s1 = s\<lparr>df_changed := True\<rparr>
                in case py_iter choice of
                     None \<Rightarrow> Inl (TypeError, s1)
                   | Some cols \<Rightarrow> astype_loop pd type_str cols s1))))"

fun datetime_loop :: "pandas \<Rightarrow> (string \<times> string) list \<Rightarrow> cleaner \<Rightarrow> cleaner result" where
  "datetime_loop pd [] s = Inr s"
| "datetime_loop pd ((col, form) # ps) s =
     (let s1 = log_msg INFO (Running_to_datetime col form) s
      in case get_col (df s1) col of
           None \<Rightarrow> Inl (KeyError col, s1)
         | Some vs \<Rightarrow>
             datetime_loop pd ps
               (s1\<lparr>df := set_col (df s1) col (map (to_datetime pd form) vs)\<rparr>))"

definition clean_datetime_columns :: "pandas \<Rightarrow> cleaner \<Rightarrow> cleaner result" where
  "clean_datetime_columns pd s =
     (let cols = cfg_get (cfg s) ''datetime_col'' in
      if \<not> truthy (cfg_get (cfg s) ''clean_types'') \<or> \<not> truthy cols then Inr s
      else
        (let forms = cfg_get (cfg s) ''datetime_format'' in
         case py_len cols of
           None \<Rightarrow> Inl (TypeError, s)
         | Some l_cols \<Rightarrow>
            (case py_len forms of
               None \<Rightarrow> Inl (TypeError, s)
             | Some l_forms \<Rightarrow>
                (if l_cols \<noteq> l_forms then
                   Inr (log_msg WARNING (Datetime_skipped l_cols l_forms) s)
                 else
                   (let s1 = s\<lparr>df_changed := True\<rparr>
                    in case (py_iter cols, py_iter forms) of
                         (Some cs, Some fs) \<Rightarrow> datetime_loop pd (zip cs fs) s1
                       | _ \<Rightarrow> Inl (TypeError, s1))))))"

subsection \<open>Missing rows, columns, outliers\<close>

text \<open>\<^verbatim>\<open>dropna(axis="index", how="all")\<close> keeps the rows that have a cell which is not missing.\<close>

definition all_missing :: "cell list \<Rightarrow> bool" where
  "all_missing r = list_all (\<lambda>v. v = NA) r"

definition clean_drop_na :: "cleaner \<Rightarrow> cleaner result" where
  "clean_drop_na s =
     (if \<not> truthy (cfg_get (cfg s) ''drop_na'') then Inr s
      else
        (let s1 = (log_msg INFO Dropping_na s)\<lparr>df_changed := True\<rparr>
         in Inr (s1\<lparr>df := (df s1)\<lparr>rows := filter (\<lambda>r. \<not> all_missing r) (rows (df s1))\<rparr>\<rparr>)))"

fun drop_loop :: "string list \<Rightarrow> cleaner \<Rightarrow> cleaner" where
  "drop_loop [] s = s"
| "drop_loop (col # cols) s =
     (case drop_column (df s) col of
        Some d \<Rightarrow> drop_loop cols (s\<lparr>df := d\<rparr>)
      | None \<Rightarrow> drop_loop cols (log_msg WARNING (Column_not_in_dataframe col) s))"

definition drop_columns :: "cleaner \<Rightarrow> cleaner result" where
  "drop_columns s =
     (let cols = cfg_get (cfg s) ''drop_col'' in
      if \<not> truthy cols then Inr s
      else
        (let s1 = log_msg INFO (Dropping_columns cols) s
         in case py_iter cols of
              None \<Rightarrow> Inl (TypeError, s1)
            | Some cs \<Rightarrow> Inr (drop_loop cs s1)))"

text \<open>
  Floating-point scalars: \<open>None\<close> is \<^verbatim>\<open>NaN\<close>, which arithmetic propagates and which
  fails every comparison. A point in time counts as its timestamp.
\<close>

type_synonym scalar = "rat option"

fun sc_sub :: "scalar \<Rightarrow> scalar \<Rightarrow> scalar" where
  "sc_sub (Some x) (Some y) = Some (x - y)"
| "sc_sub a b = None"

fun sc_add :: "scalar \<Rightarrow> scalar \<Rightarrow> scalar" where
  "sc_add (Some x) (Some y) = Some (x + y)"
| "sc_add a b = None"

definition sc_scale :: "rat \<Rightarrow> scalar \<Rightarrow> scalar" where
  "sc_scale k a = map_option (\<lambda>x. k * x) a"

fun num_of :: "cell \<Rightarrow> rat option" where
  "num_of (Num x) = Some x"
| "num_of (Date t) = Some (of_int t)"
| "num_of NA = None"
| "num_of (Str s) = None"

fun cell_ge :: "cell \<Rightarrow> scalar \<Rightarrow> bool" where
  "cell_ge v None = False"
| "cell_ge v (Some b) = (case num_of v of None \<Rightarrow> False | Some x \<Rightarrow> b \<le> x)"

fun cell_le :: "cell \<Rightarrow> scalar \<Rightarrow> bool" where
  "cell_le v None = False"
| "cell_le v (Some b) = (case num_of v of None \<Rightarrow> False | Some x \<Rightarrow> x \<le> b)"

fun is_str :: "cell \<Rightarrow> bool" where
  "is_str (Str s) = True"
| "is_str v = False"

text \<open>
  \<^verbatim>\<open>Series.quantile(q)\<close> with the default linear interpolation: missing cells are skipped,
  the rest is sorted, and the value at position \<open>q * (n - 1)\<close> is interpolated between its
  two neighbours. No value at all gives \<^verbatim>\<open>NaN\<close>; a column of strings raises \<^verbatim>\<open>TypeError\<close>.
\<close>

definition quantile :: "cell list \<Rightarrow> rat \<Rightarrow> exn + scalar" where
  "quantile vs q =
     (if list_ex is_str vs then Inl TypeError
      else
        (let xs = sort (List.map_filter num_of vs); n = length xs in
         if n = 0 then Inr None
         else
           (let pos = q * of_nat (n - 1);
                lo = nat \<lfloor>pos\<rfloor>;
                hi = min (lo + 1) (n - 1)
            in Inr (Some (xs ! lo + (xs ! hi - xs ! lo) * (pos - of_nat lo))))))"

fun outliers_loop :: "string list \<Rightarrow> cleaner \<Rightarrow> cleaner result" where
  "outliers_loop [] s = Inr s"
| "outliers_loop (col # cols) s =
     (case get_col (df s) col of
        None \<Rightarrow> Inl (KeyError col, s)
      | Some vs \<Rightarrow>
         (case quantile vs (1 / 4) of
            Inl e \<Rightarrow> Inl (e, s)
          | Inr Q1 \<Rightarrow>
             (case quantile vs (3 / 4) of
                Inl e \<Rightarrow> Inl (e, s)
              | Inr Q3 \<Rightarrow>
                 (let IQR = sc_sub Q1 Q3;
                      min_valid = sc_sub Q1 (sc_scale (3 / 2) IQR);
                      max_valid = sc_add Q3 (sc_scale (3 / 2) IQR);
                      valid_rows = map (\<lambda>v. cell_ge v min_valid \<and> cell_le v max_valid) vs
                  in outliers_loop cols (s\<lparr>df := select_rows (df s) valid_rows\<rparr>)))))"

definition clean_quantile_outliers :: "cleaner \<Rightarrow> cleaner result" where
  "clean_quantile_outliers s =
     (let q_o_cols = cfg_get (cfg s) ''quantile_ouliers_col'' in
      if \<not> truthy q_o_cols then Inr s
      else
        (case py_iter q_o_cols of
           None \<Rightarrow> Inl (TypeError, s)
         | Some cols \<Rightarrow> outliers_loop cols s))"

subsection \<open>The whole run\<close>

text \<open>The cleaners in the order in which \<^verbatim>\<open>run_all_cleaners\<close> calls them.\<close>

definition cleaners :: "pandas \<Rightarrow> (cleaner \<Rightarrow> cleaner result) list" where
  "cleaners pd =
     [clean_headers,
      clean_drop_dupplicates,
      clean_numeric_columns pd,
      clean_datetime_columns pd,
      run_astype_conversion pd ''int'',
      run_astype_conversion pd ''float'',
      run_astype_conversion pd ''str'',
      clean_drop_na,
      drop_columns,
      clean_quantile_outliers]"

definition run_all_cleaners :: "pandas \<Rightarrow> cleaner \<Rightarrow> cleaner result" where
  "run_all_cleaners pd s = foldl then_run (Inr s) (cleaners pd)"

section \<open>Outcomes\<close>

text \<open>A call returns a value with a property, or it raises and leaves the object in a state.\<close>

definition returns :: "'a result \<Rightarrow> ('a \<Rightarrow> bool) \<Rightarrow> bool" where
  "returns r P = (case r of Inl e \<Rightarrow> False | Inr x \<Rightarrow> P x)"

definition raises :: "'a result \<Rightarrow> exn \<Rightarrow> bool" where
  "raises r e = (case r of Inl (e', s) \<Rightarrow> e' = e | Inr x \<Rightarrow> False)"

definition final :: "cleaner result \<Rightarrow> cleaner" where
  "final r = (case r of Inl (e, s) \<Rightarrow> s | Inr s \<Rightarrow> s)"

section \<open>A small library instance\<close>

text \<open>
  An instance of the library interface on which the stages can be run on examples. It
  reads decimal integers and no date format, and its file system holds no table:
  a string converts to a number when it is an optional minus sign and digits,
  \<^verbatim>\<open>int\<close> rejects a missing cell and a string that is no integer with
  \<^verbatim>\<open>ValueError\<close> and an integer that does not fit 64 bits with
  \<^verbatim>\<open>OverflowError\<close>, \<^verbatim>\<open>str\<close> leaves strings as they are and writes a missing cell as
  \<^verbatim>\<open>nan\<close>; the text that stands for a number or a time is not modelled, such a cell
  keeps its value. The examples use strings, integers and missing cells only.
\<close>

definition digit_val :: "char \<Rightarrow> nat option" where
  "digit_val c =
     (let n = (of_char c :: nat) in if 48 \<le> n \<and> n \<le> 57 then Some (n - 48) else None)"

fun nat_of_digits :: "nat \<Rightarrow> string \<Rightarrow> nat option" where
  "nat_of_digits acc [] = Some acc"
| "nat_of_digits acc (c # cs) =
     (case digit_val c of None \<Rightarrow> None | Some d \<Rightarrow> nat_of_digits (10 * acc + d) cs)"

definition int_of_string :: "string \<Rightarrow> int option" where
  "int_of_string s =
     (case s of
        [] \<Rightarrow> None
      | c # cs \<Rightarrow>
         (if c = CHR ''-'' then
            (if cs = [] then None else map_option (\<lambda>n. - int n) (nat_of_digits 0 cs))
          else map_option int (nat_of_digits 0 s)))"

fun cast_cell :: "dtype \<Rightarrow> cell \<Rightarrow> exn + cell" where
  "cast_cell T_int (Str s) =
     (case int_of_string s of
        None \<Rightarrow> Inl ValueError
      | Some i \<Rightarrow>
          (if - (2 ^ 63) \<le> i \<and> i < 2 ^ 63 then Inr (Num (of_int i)) else Inl OverflowError))"
| "cast_cell T_int NA = Inl ValueError"
| "cast_cell T_int (Num x) = Inr (Num (of_int (if 0 \<le> x then \<lfloor>x\<rfloor> else \<lceil>x\<rceil>)))"
| "cast_cell T_int (Date t) = Inr (Num (of_int t))"
| "cast_cell T_float (Str s) =
     (case int_of_string s of None \<Rightarrow> Inl ValueError | Some i \<Rightarrow> Inr (Num (of_int i)))"
| "cast_cell T_float (Date t) = Inl TypeError"
| "cast_cell T_float v = Inr v"
| "cast_cell T_str NA = Inr (Str ''nan'')"
| "cast_cell T_str v = Inr v"

fun cast_cells :: "dtype \<Rightarrow> cell list \<Rightarrow> exn + cell list" where
  "cast_cells t [] = Inr []"
| "cast_cells t (v # vs) =
     (case cast_cell t v of
        Inl e \<Rightarrow> Inl e
      | Inr w \<Rightarrow> (case cast_cells t vs of Inl e \<Rightarrow> Inl e | Inr ws \<Rightarrow> Inr (w # ws)))"

definition pd_example :: pandas where
  "pd_example =
     \<lparr>read_csv = (\<lambda>p sep. Inl FileNotFoundError),
      to_numeric =
        (\<lambda>v. case v of
                Str s \<Rightarrow> (case int_of_string s of None \<Rightarrow> NA | Some i \<Rightarrow> Num (of_int i))
              | Date t \<Rightarrow> Num (of_int t)
              | _ \<Rightarrow> v),
      to_datetime = (\<lambda>form v. case v of Date t \<Rightarrow> Date t | _ \<Rightarrow> NA),
      astype = cast_cells\<rparr>"

section \<open>Example inputs\<close>

text \<open>
  The object that \<^verbatim>\<open>__init__\<close> leaves for a specification \<open>c\<close> read from
  \<^verbatim>\<open>specs.json\<close> in the working directory and a table \<open>d\<close> read from its input file.
\<close>

definition fresh_cleaner :: "config \<Rightarrow> dataframe \<Rightarrow> cleaner" where
  "fresh_cleaner c d =
     \<lparr>cfg = c, cfg_file = [''specs.json''], local_path = [],
      input_profile = [''profiles'', ''input_file.html''],
      output_profile = [''profiles'', ''output_file.html''],
      df = d, df_changed = False, na_safe = False, logged = []\<rparr>"

definition mismatch_spec :: config where
  "mismatch_spec = map_of
     [(''clean_types'', PBool True),
      (''datetime_col'', PList [''Ordered'', ''Shipped'']),
      (''datetime_format'', PList [''%Y-%m-%d''])]"

definition mismatch_table :: dataframe where
  "mismatch_table =
     \<lparr>columns = [''Ordered'', ''Shipped''],
      rows = [[Str ''2024-01-05'', Str ''2024-01-09''], [Str ''2024-02-01'', NA]]\<rparr>"

definition blank_rows_spec :: config where
  "blank_rows_spec = map_of [(''drop_na'', PBool True)]"

definition blank_rows_table :: dataframe where
  "blank_rows_table =
     \<lparr>columns = [''A'', ''B''],
      rows = [[NA, NA], [Num 1, NA], [NA, NA], [NA, Str ''x'']]\<rparr>"


definition loaded_cfg :: "exn + (json \<times> path \<times> filesystem \<times> audit) \<Rightarrow> config option" where
  "loaded_cfg r =
     (case r of
        Inl e \<Rightarrow> None
      | Inr (Other_json, cf, fs, l) \<Rightarrow> None
      | Inr (Object c, cf, fs, l) \<Rightarrow> Some c)"

text \<open>The directory the application runs in, and files in it.\<close>

definition app_dir :: path where
  "app_dir = [''/'', ''app'']"

definition sparse_spec :: config where
  "sparse_spec = map_of [(''drop_na'', PBool True), (''delimiter_in'', PStr '';'')]"

definition sparse_fs :: filesystem where
  "sparse_fs = map_of [([''/'', ''app'', ''specs.json''], Json (Object sparse_spec))]"

definition twice_table :: dataframe where
  "twice_table = \<lparr>columns = [''A'', ''B''], rows = [[Num 1, Str ''x''], [Num 1, Str ''x'']]\<rparr>"






section \<open>Stages of a message\<close>

text \<open>
  The position, in \<^verbatim>\<open>run_all_cleaners\<close>, of the call that writes a message; messages
  written outside the cleaning run have position 0. The outlier stage, the tenth call,
  writes no message.
\<close>

fun stage_of :: "msg \<Rightarrow> nat" where
  "stage_of Removing_headers = 1"
| "stage_of Removing_rows = 2"
| "stage_of (Running_to_numeric col) = 3"
| "stage_of (Running_to_datetime col form) = 4"
| "stage_of (Datetime_skipped n m) = 4"
| "stage_of (Running_astype type_str col) =
     (if type_str = ''int'' then 5 else if type_str = ''float'' then 6 else 7)"
| "stage_of (Astype_failed col type_str) =
     (if type_str = ''int'' then 5 else if type_str = ''float'' then 6 else 7)"
| "stage_of Dropping_na = 8"
| "stage_of (Dropping_columns cols) = 9"
| "stage_of (Column_not_in_dataframe col) = 9"
| "stage_of m = 0"

definition stages :: "audit \<Rightarrow> nat list" where
  "stages l = map (\<lambda>e. stage_of (snd e)) l"

text \<open>
  What a call leaves of the object: the specification and the directory are kept, and the
  log grows by messages of stages between \<open>lo\<close> and \<open>hi\<close>, in the order of the stages.
\<close>

definition frame :: "nat \<Rightarrow> nat \<Rightarrow> cleaner \<Rightarrow> cleaner \<Rightarrow> bool" where
  "frame lo hi s s' =
     (cfg s' = cfg s \<and> local_path s' = local_path s
      \<and> (\<exists>new. logged s' = logged s @ new \<and> sorted (stages new)
                 \<and> list_all (\<lambda>k. lo \<le> k \<and> k \<le> hi) (stages new)))"

section \<open>The stage order of the specification\<close>

text \<open>
  The stage sequence as section 4.4 of the specification lists it: numeric coercion
  third, the explicit casts fourth, datetime parsing fifth.
\<close>

definition stage_sequence :: "pandas \<Rightarrow> (cleaner \<Rightarrow> cleaner result) list" where
  "stage_sequence pd =
     [clean_headers,
      clean_drop_dupplicates,
      clean_numeric_columns pd,
      run_astype_conversion pd ''int'',
      run_astype_conversion pd ''float'',
      run_astype_conversion pd ''str'',
      clean_datetime_columns pd,
      clean_drop_na,
      drop_columns,
      clean_quantile_outliers]"

definition order_spec :: config where
  "order_spec = map_of
     [(''clean_types'', PBool True),
      (''numeric_col'', PList []),
      (''datetime_col'', PList [''When'']),
      (''datetime_format'', PList [''%Y'']),
      (''str_col'', PList [''Name''])]"

definition order_table :: dataframe where
  "order_table = \<lparr>columns = [''When'', ''Name''], rows = [[Str ''n/a'', Str ''x'']]\<rparr>"

section \<open>Profiling before and after the run\<close>

definition profile_target :: "(path \<times> cleaner) result \<Rightarrow> path option" where
  "profile_target r = (case r of Inl e \<Rightarrow> None | Inr (p, s) \<Rightarrow> Some p)"

text \<open>
  The calls of \<^verbatim>\<open>run_command_line\<close> between construction and egress: profile, clean,
  profile again. The result holds both profile paths and the object.
\<close>

definition profile_clean_profile :: "pandas \<Rightarrow> cleaner \<Rightarrow> (path \<times> path \<times> cleaner) option" where
  "profile_clean_profile pd s =
     (case html_profile s of
        Inl e \<Rightarrow> None
      | Inr (p1, s1) \<Rightarrow>
         (case run_all_cleaners pd s1 of
            Inl e \<Rightarrow> None
          | Inr s2 \<Rightarrow>
             (case html_profile s2 of
                Inl e \<Rightarrow> None
              | Inr (p2, s3) \<Rightarrow> Some (p1, p2, s3))))"

definition same_target_spec :: config where
  "same_target_spec = map_of
     [(''input_file_profile'', PStr ''profile.html''),
      (''output_file_profile'', PStr ''profile.html''),
      (''drop_duplicates'', PBool True)]"

definition two_targets_spec :: config where
  "two_targets_spec = map_of
     [(''input_file_profile'', PStr ''profiles/input_file.html''),
      (''output_file_profile'', PStr ''profiles/output_file.html''),
      (''drop_duplicates'', PBool True)]"

definition repeated_table :: dataframe where
  "repeated_table = \<lparr>columns = [''A'', ''B''], rows = [[Num 1, Str ''x''], [Num 1, Str ''x'']]\<rparr>"

definition drop_only_spec :: config where
  "drop_only_spec = map_of [(''drop_col'', PList [''X''])]"

definition outliers_only_spec :: config where
  "outliers_only_spec = map_of [(''quantile_ouliers_col'', PList [''A''])]"

definition no_numeric_spec :: config where
  "no_numeric_spec = map_of [(''clean_types'', PBool True), (''numeric_col'', PList [])]"

definition ax_table :: dataframe where
  "ax_table =
     \<lparr>columns = [''A'', ''X''],
      rows = [[Num 1, Str ''p''], [Num 2, Str ''q''], [Num 3, Str ''r''], [Num 100, Str ''s'']]\<rparr>"

section \<open>The casts of one call of the cast stage\<close>

text \<open>
  The casts as the loop of \<^verbatim>\<open>run_astype_conversion\<close> makes them, one listed column
  after the other on the table as it then is: the column is in the table, and its cast
  either succeeds, after which the table holds the converted column, or raises an
  exception that the handler takes.
\<close>

fun casts_recover :: "pandas \<Rightarrow> string \<Rightarrow> string list \<Rightarrow> dataframe \<Rightarrow> bool" where
  "casts_recover pd type_str [] d = True"
| "casts_recover pd type_str (col # cols) d =
     (case get_col d col of
        None \<Rightarrow> False
      | Some vs \<Rightarrow>
         (case astype pd (type_map type_str) vs of
            Inr ws \<Rightarrow> casts_recover pd type_str cols (set_col d col ws)
          | Inl e \<Rightarrow> is_value_error e \<and> casts_recover pd type_str cols d))"

section \<open>Examples for the explicit casts\<close>

definition cast_spec :: config where
  "cast_spec = map_of [(''clean_types'', PBool True), (''int_col'', PList [''A''])]"

definition cast_table :: dataframe where
  "cast_table = \<lparr>columns = [''A''], rows = [[Str ''1''], [Str ''bad''], [Str ''3'']]\<rparr>"

definition absent_column_spec :: config where
  "absent_column_spec = map_of
     [(''clean_types'', PBool True),
      (''numeric_col'', PList []),
      (''int_col'', PList [''B'', ''A'']),
      (''drop_na'', PBool True)]"

definition digits_table :: dataframe where
  "digits_table = \<lparr>columns = [''A''], rows = [[Str ''1''], [Str ''2'']]\<rparr>"

section \<open>The outlier stage as the specification words it\<close>

text \<open>
  For one column: the spread is \<open>Q1 - Q3\<close>, the bounds are \<open>Q1 - 1.5 * spread\<close> and
  \<open>Q3 + 1.5 * spread\<close>, and a value lies within them when it is at least the first and at
  most the second.
\<close>

definition outlier_bounds :: "scalar \<Rightarrow> scalar \<Rightarrow> scalar \<times> scalar" where
  "outlier_bounds Q1 Q3 =
     (sc_sub Q1 (sc_scale (3 / 2) (sc_sub Q1 Q3)), sc_add Q3 (sc_scale (3 / 2) (sc_sub Q1 Q3)))"

definition in_bounds :: "cell \<Rightarrow> scalar \<times> scalar \<Rightarrow> bool" where
  "in_bounds v b = (cell_ge v (fst b) \<and> cell_le v (snd b))"

text \<open>
  One step: the quartiles of the column's values in the table as it is now, then only the
  rows whose value in that column lies within the bounds are retained.
\<close>

definition filter_column :: "string \<Rightarrow> dataframe \<Rightarrow> exn + dataframe" where
  "filter_column c d =
     (case col_index (columns d) c of
        None \<Rightarrow> Inl (KeyError c)
      | Some i \<Rightarrow>
         (case quantile (map (\<lambda>r. cell_at r i) (rows d)) (1 / 4) of
            Inl e \<Rightarrow> Inl e
          | Inr Q1 \<Rightarrow>
             (case quantile (map (\<lambda>r. cell_at r i) (rows d)) (3 / 4) of
                Inl e \<Rightarrow> Inl e
              | Inr Q3 \<Rightarrow>
                 Inr (d\<lparr>rows :=
                        filter (\<lambda>r. in_bounds (cell_at r i) (outlier_bounds Q1 Q3)) (rows d)\<rparr>))))"

text \<open>
  The stage: a fold over the listed columns in their order, each step on the table the
  step before it left. A step that raises ends the fold with the table as it then is.
\<close>

definition filter_step ::
  "(exn \<times> dataframe) + dataframe \<Rightarrow> string \<Rightarrow> (exn \<times> dataframe) + dataframe" where
  "filter_step acc c =
     (case acc of
        Inl x \<Rightarrow> Inl x
      | Inr d \<Rightarrow> (case filter_column c d of Inl e \<Rightarrow> Inl (e, d) | Inr d' \<Rightarrow> Inr d'))"

definition filter_columns :: "string list \<Rightarrow> dataframe \<Rightarrow> (exn \<times> dataframe) + dataframe" where
  "filter_columns cs d = foldl filter_step (Inr d) cs"

definition outliers_ab_spec :: config where
  "outliers_ab_spec = map_of [(''quantile_ouliers_col'', PList [''A'', ''B''])]"

definition ab_table :: dataframe where
  "ab_table =
     \<lparr>columns = [''A'', ''B''],
      rows = [[Num 1, Num 0], [Num 5, Num 1], [Num 5, Num 1], [Num 5, Num 1], [Num 9, Num 0]]\<rparr>"

definition gaps_spec :: config where
  "gaps_spec = map_of [(''drop_na'', PBool False), (''quantile_ouliers_col'', PList [''A'', ''B''])]"

definition gaps_table :: dataframe where
  "gaps_table =
     \<lparr>columns = [''A'', ''B''],
      rows = [[Num 5, Num 1], [NA, Num 1], [Num 5, NA], [Num 5, Num 1], [NA, NA]]\<rparr>"


section \<open>Properties\<close>

lemma returns_Inr [simp]: "returns (Inr x) P = P x"
  by (simp add: returns_def)

lemma returns_Inl [simp]: "returns (Inl e) P = False"
  by (simp add: returns_def)


subsection \<open>Rows without any value\<close>

text \<open>
  C9. When \<^verbatim>\<open>drop_na\<close> is enabled, the missing-row stage returns, keeps the columns, and
  keeps exactly the rows that have at least one cell that is not missing, in their order
  and unaltered: a row is removed if and only if every cell of it is missing.
\<close>

theorem clean_drop_na_all_missing:
  assumes "truthy (cfg_get (cfg s) ''drop_na'')"
  shows "returns (clean_drop_na s) (\<lambda>s'.
           columns (df s') = columns (df s)
         \<and> rows (df s') = filter (\<lambda>r. \<not> all_missing r) (rows (df s))
         \<and> (\<forall>r. r \<in> set (rows (df s')) \<longleftrightarrow>
                  r \<in> set (rows (df s)) \<and> (\<exists>v \<in> set r. v \<noteq> NA)))"
  using assms
  by (auto simp: clean_drop_na_def log_msg_def all_missing_def list_all_iff)

theorem clean_drop_na_all_missing_witness:
  "truthy (cfg_get (cfg (fresh_cleaner blank_rows_spec blank_rows_table)) ''drop_na'')
   \<and> returns (clean_drop_na (fresh_cleaner blank_rows_spec blank_rows_table))
        (\<lambda>s'. rows (df s') = [[Num 1, NA], [NA, Str ''x'']])"
proof -
  have t: "truthy (cfg_get (cfg (fresh_cleaner blank_rows_spec blank_rows_table)) ''drop_na'')"
    by (simp add: fresh_cleaner_def blank_rows_spec_def cfg_get_def)
  have r: "filter (\<lambda>r. \<not> all_missing r) (rows (df (fresh_cleaner blank_rows_spec blank_rows_table)))
           = [[Num 1, NA], [NA, Str ''x'']]"
    by (simp add: fresh_cleaner_def blank_rows_table_def all_missing_def)
  show ?thesis
    using clean_drop_na_all_missing [OF t] t r
    by (cases "clean_drop_na (fresh_cleaner blank_rows_spec blank_rows_table)") simp_all
qed

subsection \<open>Datetime columns and formats of different length\<close>

text \<open>
  C7. With \<^verbatim>\<open>clean_types\<close> true, a non-empty \<^verbatim>\<open>datetime_col\<close> and a
  \<^verbatim>\<open>datetime_format\<close> of another length, the datetime stage returns without parsing any
  column: the table, the mutation flag and the specification are as before, one warning
  is logged, and whatever stage comes next runs on that state.
\<close>

theorem datetime_length_mismatch_skips:
  assumes "truthy (cfg_get (cfg s) ''clean_types'')"
    and "truthy (cfg_get (cfg s) ''datetime_col'')"
    and "py_len (cfg_get (cfg s) ''datetime_col'') = Some n"
    and "py_len (cfg_get (cfg s) ''datetime_format'') = Some m"
    and "n \<noteq> m"
  shows "returns (clean_datetime_columns pd s) (\<lambda>s'.
           df s' = df s \<and> df_changed s' = df_changed s \<and> cfg s' = cfg s
         \<and> logged s' = logged s @ [(WARNING, Datetime_skipped n m)]
         \<and> then_run (clean_datetime_columns pd s) next_stage = next_stage s')"
  using assms
  by (simp add: clean_datetime_columns_def log_msg_def then_run_def)

theorem datetime_length_mismatch_skips_witness:
  "truthy (cfg_get (cfg (fresh_cleaner mismatch_spec mismatch_table)) ''clean_types'')
   \<and> truthy (cfg_get (cfg (fresh_cleaner mismatch_spec mismatch_table)) ''datetime_col'')
   \<and> py_len (cfg_get (cfg (fresh_cleaner mismatch_spec mismatch_table)) ''datetime_col'') = Some 2
   \<and> py_len (cfg_get (cfg (fresh_cleaner mismatch_spec mismatch_table)) ''datetime_format'') = Some 1
   \<and> (2::nat) \<noteq> 1
   \<and> returns (clean_datetime_columns pd_example (fresh_cleaner mismatch_spec mismatch_table))
        (\<lambda>s'. df s' = mismatch_table \<and> \<not> df_changed s'
             \<and> logged s' = [(WARNING, Datetime_skipped 2 1)])"
proof -
  let ?s = "fresh_cleaner mismatch_spec mismatch_table"
  have a: "truthy (cfg_get (cfg ?s) ''clean_types'')"
    and b: "truthy (cfg_get (cfg ?s) ''datetime_col'')"
    and c: "py_len (cfg_get (cfg ?s) ''datetime_col'') = Some 2"
    and d: "py_len (cfg_get (cfg ?s) ''datetime_format'') = Some 1"
    by (simp_all add: fresh_cleaner_def mismatch_spec_def cfg_get_def)
  have e: "(2::nat) \<noteq> 1" by simp
  have f: "df ?s = mismatch_table" "df_changed ?s = False" "logged ?s = []"
    by (simp_all add: fresh_cleaner_def)
  show ?thesis
    using datetime_length_mismatch_skips [OF a b c d e, of pd_example] a b c d f
    by (cases "clean_datetime_columns pd_example ?s") simp_all
qed

subsection \<open>Lookup of keys the specification omits\<close>

text \<open>
  C1, as stated, fails. A specification that loads and omits \<^verbatim>\<open>drop_duplicates\<close> and
  \<^verbatim>\<open>input_file\<close> is kept as it is: the lookup of \<^verbatim>\<open>drop_duplicates\<close> yields
  \<^verbatim>\<open>None\<close>, not the default \<^verbatim>\<open>true\<close>, so duplicate removal leaves a table with two
  equal rows untouched, and ingestion raises \<^verbatim>\<open>TypeError\<close> instead of reading
  \<^verbatim>\<open>data/my_data.csv\<close>.
\<close>

theorem missing_key_default_counterexample:
  "loaded_cfg (load_config sparse_fs app_dir [''specs.json'']) = Some sparse_spec
   \<and> sparse_spec ''drop_duplicates'' = None
   \<and> DEFAULT_CFG ''drop_duplicates'' = Some (PBool True)
   \<and> cfg_get sparse_spec ''drop_duplicates'' = PNone
   \<and> clean_drop_dupplicates (fresh_cleaner sparse_spec twice_table)
       = Inr (fresh_cleaner sparse_spec twice_table)
   \<and> rows (df (fresh_cleaner sparse_spec twice_table)) = [[Num 1, Str ''x''], [Num 1, Str ''x'']]
   \<and> sparse_spec ''input_file'' = None
   \<and> csv_read pd_example [] sparse_spec [] = Inl (TypeError, [])"
  by (simp add: load_config_def sparse_fs_def app_dir_def absolute_def is_absolute_def
      loaded_cfg_def sparse_spec_def DEFAULT_CFG_def cfg_get_def clean_drop_dupplicates_def
      fresh_cleaner_def twice_table_def csv_read_def)

text \<open>
  C1, amended. A specification that loads is the parsed dict itself. Lookup of a key
  never fails: it yields the user's value when the key is present and \<^verbatim>\<open>None\<close> when it
  is absent; no per-key default is applied. So a specification without
  \<^verbatim>\<open>drop_duplicates\<close> skips duplicate removal, and one without \<^verbatim>\<open>input_file\<close>
  makes ingestion raise \<^verbatim>\<open>TypeError\<close>.
\<close>

theorem absent_key_yields_none:
  assumes "fs (absolute cwd p) = Some (Json (Object c))"
  shows "load_config fs cwd p = Inr (Object c, p, fs, [(INFO, Loaded_config p)])
       \<and> (\<forall>k v. c k = Some v \<longrightarrow> cfg_get c k = v)
       \<and> (\<forall>k. c k = None \<longrightarrow> cfg_get c k = PNone)
       \<and> (c ''drop_duplicates'' = None \<longrightarrow>
            (\<forall>s. cfg s = c \<longrightarrow> clean_drop_dupplicates s = Inr s))
       \<and> (c ''input_file'' = None \<longrightarrow> csv_read pd lp c l = Inl (TypeError, l))"
  using assms
  by (simp add: load_config_def cfg_get_def clean_drop_dupplicates_def csv_read_def)

theorem absent_key_yields_none_witness:
  "sparse_fs (absolute app_dir [''specs.json'']) = Some (Json (Object sparse_spec))
   \<and> sparse_spec ''drop_na'' = Some (PBool True)
   \<and> cfg_get sparse_spec ''drop_na'' = PBool True
   \<and> sparse_spec ''drop_duplicates'' = None
   \<and> cfg_get sparse_spec ''drop_duplicates'' = PNone
   \<and> cfg (fresh_cleaner sparse_spec twice_table) = sparse_spec
   \<and> clean_drop_dupplicates (fresh_cleaner sparse_spec twice_table)
       = Inr (fresh_cleaner sparse_spec twice_table)
   \<and> sparse_spec ''input_file'' = None
   \<and> csv_read pd_example [] sparse_spec [] = Inl (TypeError, [])"
proof -
  have a: "sparse_fs (absolute app_dir [''specs.json'']) = Some (Json (Object sparse_spec))"
    by (simp add: sparse_fs_def absolute_def app_dir_def is_absolute_def)
  have b: "sparse_spec ''drop_na'' = Some (PBool True)"
    and c: "sparse_spec ''drop_duplicates'' = None"
    and d: "sparse_spec ''input_file'' = None"
    by (simp_all add: sparse_spec_def)
  have e: "cfg (fresh_cleaner sparse_spec twice_table) = sparse_spec"
    by (simp add: fresh_cleaner_def)
  show ?thesis
    using absent_key_yields_none
            [where fs = sparse_fs and cwd = app_dir and p = "[''specs.json'']" and c = sparse_spec
               and pd = pd_example and lp = "[]" and l = "[]"]
          a b c d e
    by simp
qed

subsection \<open>Falling back to the default specification\<close>




subsection \<open>What every stage keeps and logs\<close>

lemma final_Inr [simp]: "final (Inr s) = s"
  by (simp add: final_def)

lemma final_Inl [simp]: "final (Inl (e, s)) = s"
  by (simp add: final_def)

lemma frame_refl: "frame lo hi s s"
  by (simp add: frame_def stages_def)

lemma frame_df [simp]: "frame lo hi s (s'\<lparr>df := d\<rparr>) = frame lo hi s s'"
  by (simp add: frame_def)

lemma frame_df_changed [simp]: "frame lo hi s (s'\<lparr>df_changed := b\<rparr>) = frame lo hi s s'"
  by (simp add: frame_def)

lemma frame_log: "lo \<le> stage_of m \<Longrightarrow> stage_of m \<le> hi \<Longrightarrow> frame lo hi s (log_msg l m s)"
  by (simp add: frame_def log_msg_def stages_def)

lemma frame_trans:
  assumes "frame a b s s'" and "frame c d s' s''" and "b \<le> c" and "a \<le> c" and "b \<le> d"
  shows "frame a d s s''"
proof -
  from assms(1) obtain n1 where n1: "logged s' = logged s @ n1" "sorted (stages n1)"
    "list_all (\<lambda>k. a \<le> k \<and> k \<le> b) (stages n1)" and c1: "cfg s' = cfg s" "local_path s' = local_path s"
    by (auto simp: frame_def)
  from assms(2) obtain n2 where n2: "logged s'' = logged s' @ n2" "sorted (stages n2)"
    "list_all (\<lambda>k. c \<le> k \<and> k \<le> d) (stages n2)" and c2: "cfg s'' = cfg s'" "local_path s'' = local_path s'"
    by (auto simp: frame_def)
  have "logged s'' = logged s @ (n1 @ n2)" using n1 n2 by simp
  moreover have "sorted (stages (n1 @ n2))"
    using n1 n2 assms(3) by (fastforce simp: stages_def sorted_append list_all_iff)
  moreover have "list_all (\<lambda>k. a \<le> k \<and> k \<le> d) (stages (n1 @ n2))"
    using n1 n2 assms(3-5) by (fastforce simp: stages_def list_all_iff)
  ultimately show ?thesis
    unfolding frame_def using c1 c2 by (intro conjI exI [where x = "n1 @ n2"]) simp_all
qed

lemma frame_step:
  assumes "frame k k s s'" and "frame k k s' s''"
  shows "frame k k s s''"
  using frame_trans [OF assms] by simp

lemma clean_headers_frame: "frame 1 1 s (final (clean_headers s))"
  by (simp add: clean_headers_def frame_log frame_refl)

lemma clean_drop_dupplicates_frame: "frame 2 2 s (final (clean_drop_dupplicates s))"
  by (simp add: clean_drop_dupplicates_def frame_log frame_refl)

lemma numeric_loop_frame: "frame 3 3 s (final (numeric_loop pd cols s))"
proof (induction cols arbitrary: s)
  case Nil
  show ?case by (simp add: frame_refl)
next
  case (Cons col cols)
  have l: "frame 3 3 s (log_msg INFO (Running_to_numeric col) s)"
    by (simp add: frame_log)
  show ?case
  proof (cases "get_col (df (log_msg INFO (Running_to_numeric col) s)) col")
    case None
    then show ?thesis using l by (simp add: Let_def)
  next
    case (Some vs)
    have "frame 3 3 s ((log_msg INFO (Running_to_numeric col) s)
            \<lparr>df := set_col (df (log_msg INFO (Running_to_numeric col) s)) col (map (to_numeric pd) vs)\<rparr>)"
      using l by simp
    from frame_step [OF this Cons.IH] Some show ?thesis by (simp add: Let_def)
  qed
qed

lemma clean_numeric_columns_frame: "frame 3 3 s (final (clean_numeric_columns pd s))"
proof -
  have "frame 3 3 s (s\<lparr>df_changed := True\<rparr>)" by (simp add: frame_refl)
  from frame_step [OF this numeric_loop_frame] show ?thesis
    by (simp add: clean_numeric_columns_def frame_refl Let_def split: option.split)
qed


lemma astype_loop_frame:
  assumes k: "k = stage_of (Running_astype ty [])"
  shows "frame k k s (final (astype_loop pd ty cols s))"
proof (induction cols arbitrary: s)
  case Nil
  show ?case by (simp add: frame_refl)
next
  case (Cons col cols)
  let ?s1 = "log_msg INFO (Running_astype ty col) s"
  have l: "frame k k s ?s1"
    by (rule frame_log) (simp_all add: k)
  show ?case
  proof (cases "get_col (df ?s1) col")
    case None
    then show ?thesis using l by (simp add: Let_def)
  next
    case (Some vs)
    show ?thesis
    proof (cases "astype pd (type_map ty) vs")
      case (Inr ws)
      have "frame k k s (?s1\<lparr>df := set_col (df ?s1) col ws\<rparr>)"
        using l by simp
      from frame_step [OF this Cons.IH] Some Inr show ?thesis by (simp add: Let_def)
    next
      case (Inl e)
      show ?thesis
      proof (cases "is_value_error e")
        case True
        have "frame k k ?s1 (log_msg ERROR (Astype_failed col ty) ?s1)"
          by (rule frame_log) (simp_all add: k)
        from frame_step [OF frame_step [OF l this] Cons.IH] Some Inl True
        show ?thesis by (simp add: Let_def)
      next
        case False
        with Some Inl l show ?thesis by (simp add: Let_def)
      qed
    qed
  qed
qed

lemma run_astype_conversion_frame:
  assumes k: "k = stage_of (Running_astype ty [])"
  shows "frame k k s (final (run_astype_conversion pd ty s))"
proof -
  have "frame k k s (s\<lparr>df_changed := True\<rparr>)" by (simp add: frame_refl)
  from frame_step [OF this astype_loop_frame [OF k]] show ?thesis
    by (simp add: run_astype_conversion_def frame_refl Let_def split: option.split)
qed

lemma datetime_loop_frame: "frame 4 4 s (final (datetime_loop pd ps s))"
proof (induction ps arbitrary: s)
  case Nil
  show ?case by (simp add: frame_refl)
next
  case (Cons p ps)
  obtain col form where p: "p = (col, form)" by (cases p)
  let ?s1 = "log_msg INFO (Running_to_datetime col form) s"
  have l: "frame 4 4 s ?s1"
    by (simp add: frame_log)
  show ?case
  proof (cases "get_col (df ?s1) col")
    case None
    then show ?thesis using l p by (simp add: Let_def)
  next
    case (Some vs)
    have "frame 4 4 s (?s1\<lparr>df := set_col (df ?s1) col (map (to_datetime pd form) vs)\<rparr>)"
      using l by simp
    from frame_step [OF this Cons.IH] Some p show ?thesis by (simp add: Let_def)
  qed
qed

lemma clean_datetime_columns_frame: "frame 4 4 s (final (clean_datetime_columns pd s))"
proof -
  have "frame 4 4 s (s\<lparr>df_changed := True\<rparr>)" by (simp add: frame_refl)
  from frame_step [OF this datetime_loop_frame] show ?thesis
    by (simp add: clean_datetime_columns_def frame_refl frame_log Let_def split: option.split)
qed

lemma clean_drop_na_frame: "frame 8 8 s (final (clean_drop_na s))"
  by (simp add: clean_drop_na_def frame_log frame_refl)

lemma drop_loop_frame: "frame 9 9 s (drop_loop cols s)"
proof (induction cols arbitrary: s)
  case Nil
  show ?case by (simp add: frame_refl)
next
  case (Cons col cols)
  show ?case
  proof (cases "drop_column (df s) col")
    case None
    have "frame 9 9 s (log_msg WARNING (Column_not_in_dataframe col) s)"
      by (simp add: frame_log)
    from frame_step [OF this Cons.IH] None show ?thesis by simp
  next
    case (Some d)
    have "frame 9 9 s (s\<lparr>df := d\<rparr>)" by (simp add: frame_refl)
    from frame_step [OF this Cons.IH] Some show ?thesis by simp
  qed
qed

lemma drop_columns_frame: "frame 9 9 s (final (drop_columns s))"
proof -
  have "frame 9 9 s (log_msg INFO (Dropping_columns (cfg_get (cfg s) ''drop_col'')) s)"
    by (simp add: frame_log)
  from frame_step [OF this drop_loop_frame] this show ?thesis
    by (simp add: drop_columns_def frame_refl Let_def split: option.split)
qed

lemma outliers_loop_frame: "frame 9 9 s (final (outliers_loop cols s))"
proof (induction cols arbitrary: s)
  case Nil
  show ?case by (simp add: frame_refl)
next
  case (Cons col cols)
  have "frame 9 9 s (final (outliers_loop cols (s\<lparr>df := d\<rparr>)))" for d
  proof -
    have "frame 9 9 s (s\<lparr>df := d\<rparr>)" by (simp add: frame_refl)
    from frame_step [OF this Cons.IH] show ?thesis .
  qed
  then show ?case
    by (simp add: frame_refl Let_def split: option.split sum.split)
qed

lemma clean_quantile_outliers_frame: "frame 9 9 s (final (clean_quantile_outliers s))"
  using outliers_loop_frame
  by (simp add: clean_quantile_outliers_def frame_refl Let_def split: option.split)

lemma frame_widen:
  assumes "frame a b s s'" and "b \<le> c" and "a \<le> c"
  shows "frame a c s s'"
  using frame_trans [OF assms(1) frame_refl [of c c s'] assms(2,3) assms(2)] .

lemma then_run_frame:
  assumes "frame a b s (final r)" and "\<And>s'. frame c c s' (final (f s'))"
    and "b \<le> c" and "a \<le> c"
  shows "frame a c s (final (then_run r f))"
proof (cases r)
  case (Inl x)
  then obtain e s1 where "r = Inl (e, s1)" by (cases x) auto
  with assms(1) frame_widen [OF _ assms(3,4)] show ?thesis
    by (simp add: then_run_def)
next
  case (Inr s1)
  with assms(1) have "frame a b s s1" by simp
  from frame_trans [OF this assms(2) assms(3,4,3)] Inr show ?thesis
    by (simp add: then_run_def)
qed

lemma run_all_cleaners_unfold:
  "run_all_cleaners pd s =
     then_run (then_run (then_run (then_run (then_run (then_run (then_run (then_run (then_run
       (clean_headers s)
       clean_drop_dupplicates)
       (clean_numeric_columns pd))
       (clean_datetime_columns pd))
       (run_astype_conversion pd ''int''))
       (run_astype_conversion pd ''float''))
       (run_astype_conversion pd ''str''))
       clean_drop_na)
       drop_columns)
       clean_quantile_outliers"
  by (simp add: run_all_cleaners_def cleaners_def then_run_def)

lemma run_all_cleaners_frame: "frame 1 9 s (final (run_all_cleaners pd s))"
proof -
  note step = then_run_frame
  have "frame 1 2 s (final (then_run (clean_headers s) clean_drop_dupplicates))"
    by (rule step [OF clean_headers_frame clean_drop_dupplicates_frame]) simp_all
  then have "frame 1 3 s (final (then_run (then_run (clean_headers s) clean_drop_dupplicates)
      (clean_numeric_columns pd)))"
    by (rule step [OF _ clean_numeric_columns_frame]) simp_all
  then have "frame 1 4 s (final (then_run (then_run (then_run (clean_headers s)
      clean_drop_dupplicates) (clean_numeric_columns pd)) (clean_datetime_columns pd)))"
    by (rule step [OF _ clean_datetime_columns_frame]) simp_all
  then have "frame 1 5 s (final (then_run (then_run (then_run (then_run (clean_headers s)
      clean_drop_dupplicates) (clean_numeric_columns pd)) (clean_datetime_columns pd))
      (run_astype_conversion pd ''int'')))"
    by (rule step [OF _ run_astype_conversion_frame]) simp_all
  then have "frame 1 6 s (final (then_run (then_run (then_run (then_run (then_run
      (clean_headers s) clean_drop_dupplicates) (clean_numeric_columns pd))
      (clean_datetime_columns pd)) (run_astype_conversion pd ''int''))
      (run_astype_conversion pd ''float'')))"
    by (rule step [OF _ run_astype_conversion_frame]) simp_all
  then have "frame 1 7 s (final (then_run (then_run (then_run (then_run (then_run (then_run
      (clean_headers s) clean_drop_dupplicates) (clean_numeric_columns pd))
      (clean_datetime_columns pd)) (run_astype_conversion pd ''int''))
      (run_astype_conversion pd ''float'')) (run_astype_conversion pd ''str'')))"
    by (rule step [OF _ run_astype_conversion_frame]) simp_all
  then have "frame 1 8 s (final (then_run (then_run (then_run (then_run (then_run (then_run
      (then_run (clean_headers s) clean_drop_dupplicates) (clean_numeric_columns pd))
      (clean_datetime_columns pd)) (run_astype_conversion pd ''int''))
      (run_astype_conversion pd ''float'')) (run_astype_conversion pd ''str'')) clean_drop_na))"
    by (rule step [OF _ clean_drop_na_frame]) simp_all
  then have "frame 1 9 s (final (then_run (then_run (then_run (then_run (then_run (then_run
      (then_run (then_run (clean_headers s) clean_drop_dupplicates) (clean_numeric_columns pd))
      (clean_datetime_columns pd)) (run_astype_conversion pd ''int''))
      (run_astype_conversion pd ''float'')) (run_astype_conversion pd ''str'')) clean_drop_na)
      drop_columns))"
    by (rule step [OF _ drop_columns_frame]) simp_all
  then have "frame 1 9 s (final (then_run (then_run (then_run (then_run (then_run (then_run
      (then_run (then_run (then_run (clean_headers s) clean_drop_dupplicates)
      (clean_numeric_columns pd)) (clean_datetime_columns pd))
      (run_astype_conversion pd ''int'')) (run_astype_conversion pd ''float''))
      (run_astype_conversion pd ''str'')) clean_drop_na) drop_columns)
      clean_quantile_outliers))"
    by (rule step [OF _ clean_quantile_outliers_frame]) simp_all
  then show ?thesis by (simp only: run_all_cleaners_unfold)
qed

subsection \<open>The order of the stages\<close>

text \<open>
  C2, as stated, fails. On a table with a datetime column and a column to cast to text,
  the run logs the datetime conversion first and the cast second: datetime parsing is
  applied before the explicit casts. The sequence of section 4.4, run on the same input,
  logs them the other way round.
\<close>

theorem cast_before_datetime_counterexample:
  "logged (final (run_all_cleaners pd_example (fresh_cleaner order_spec order_table)))
     = [(INFO, Running_to_datetime ''When'' ''%Y''), (INFO, Running_astype ''str'' ''Name'')]
   \<and> logged (final (foldl then_run (Inr (fresh_cleaner order_spec order_table))
                      (stage_sequence pd_example)))
     = [(INFO, Running_astype ''str'' ''Name''), (INFO, Running_to_datetime ''When'' ''%Y'')]"
  by (simp add: run_all_cleaners_def cleaners_def stage_sequence_def then_run_def
      clean_headers_def clean_drop_dupplicates_def clean_numeric_columns_def
      clean_datetime_columns_def run_astype_conversion_def clean_drop_na_def drop_columns_def
      clean_quantile_outliers_def cols_choice_def fresh_cleaner_def order_spec_def
      order_table_def cfg_get_def log_msg_def get_col_def set_col_def cell_at_def
      pd_example_def type_map_def Let_def)

text \<open>
  C2, amended. For every specification and every table, \<^verbatim>\<open>run_all_cleaners\<close> applies
  the stages in one fixed order, whichever of them are enabled: repeated headers,
  duplicates, numeric coercion, datetime parsing, the explicit casts (int, then float,
  then string), missing rows, column removal, outliers. Datetime parsing comes strictly
  before the explicit casts: in every run, also one that raises, the messages the stages
  log appear in this order.
\<close>

theorem run_all_cleaners_order:
  "run_all_cleaners pd s =
     then_run (then_run (then_run (then_run (then_run (then_run (then_run (then_run (then_run
       (clean_headers s)
       clean_drop_dupplicates)
       (clean_numeric_columns pd))
       (clean_datetime_columns pd))
       (run_astype_conversion pd ''int''))
       (run_astype_conversion pd ''float''))
       (run_astype_conversion pd ''str''))
       clean_drop_na)
       drop_columns)
       clean_quantile_outliers
   \<and> (\<exists>new. logged (final (run_all_cleaners pd s)) = logged s @ new \<and> sorted (stages new))"
  using run_all_cleaners_frame [of s pd] run_all_cleaners_unfold [of pd s]
  unfolding frame_def by blast

theorem run_all_cleaners_order_witness:
  "logged (fresh_cleaner order_spec order_table) = []
   \<and> sorted (stages (logged (final (run_all_cleaners pd_example
                                     (fresh_cleaner order_spec order_table)))))"
proof -
  have e: "logged (fresh_cleaner order_spec order_table) = []"
    by (simp add: fresh_cleaner_def)
  from run_all_cleaners_order [of pd_example "fresh_cleaner order_spec order_table"]
  obtain new where
    "logged (final (run_all_cleaners pd_example (fresh_cleaner order_spec order_table)))
       = logged (fresh_cleaner order_spec order_table) @ new"
    and "sorted (stages new)"
    by blast
  with e show ?thesis by simp
qed

subsection \<open>The mutation flag\<close>

text \<open>The definitions a run unfolds to when it is evaluated on an example.\<close>

lemmas stage_defs =
  run_all_cleaners_def cleaners_def then_run_def
  clean_headers_def clean_drop_dupplicates_def clean_numeric_columns_def
  clean_datetime_columns_def run_astype_conversion_def clean_drop_na_def drop_columns_def
  clean_quantile_outliers_def cols_choice_def cfg_get_def log_msg_def Let_def

text \<open>
  C3 does not hold of the code. A run whose only work is to drop column \<^verbatim>\<open>X\<close> removes
  the column and leaves the flag false; a run whose only work is outlier removal on
  \<^verbatim>\<open>A\<close> removes every row and leaves the flag false; and a run with
  \<^verbatim>\<open>clean_types\<close> true and every column list empty changes nothing and sets the flag.
\<close>

theorem mutation_flag_missed:
  "columns (df (final (run_all_cleaners pd_example (fresh_cleaner drop_only_spec ax_table))))
     = [''A'']
   \<and> \<not> df_changed (final (run_all_cleaners pd_example (fresh_cleaner drop_only_spec ax_table)))
   \<and> rows (df (final (run_all_cleaners pd_example (fresh_cleaner outliers_only_spec ax_table))))
     = []
   \<and> \<not> df_changed (final (run_all_cleaners pd_example
                              (fresh_cleaner outliers_only_spec ax_table)))
   \<and> df (final (run_all_cleaners pd_example (fresh_cleaner no_numeric_spec ax_table)))
     = ax_table
   \<and> df_changed (final (run_all_cleaners pd_example (fresh_cleaner no_numeric_spec ax_table)))"
proof -
  have a: "run_all_cleaners pd_example (fresh_cleaner drop_only_spec ax_table)
    = Inr ((fresh_cleaner drop_only_spec ax_table)
         \<lparr>df := \<lparr>columns = [''A''], rows = [[Num 1], [Num 2], [Num 3], [Num 100]]\<rparr>,
          logged := [(INFO, Dropping_columns (PList [''X'']))]\<rparr>)"
    by (simp add: stage_defs fresh_cleaner_def drop_only_spec_def ax_table_def
        drop_column_def remove_nth_def)
  have q1: "quantile [Num 1, Num 2, Num 3, Num 100] (1 / 4) = Inr (Some (7 / 4))"
    and q3: "quantile [Num 1, Num 2, Num 3, Num 100] (3 / 4) = Inr (Some (109 / 4))"
    by code_simp+
  have b: "run_all_cleaners pd_example (fresh_cleaner outliers_only_spec ax_table)
    = Inr ((fresh_cleaner outliers_only_spec ax_table)
         \<lparr>df := \<lparr>columns = [''A'', ''X''], rows = []\<rparr>\<rparr>)"
    by (simp add: stage_defs fresh_cleaner_def outliers_only_spec_def ax_table_def
        get_col_def cell_at_def q1 q3 sc_scale_def select_rows_def)
  have c: "run_all_cleaners pd_example (fresh_cleaner no_numeric_spec ax_table)
    = Inr ((fresh_cleaner no_numeric_spec ax_table)\<lparr>df_changed := True\<rparr>)"
    by (simp add: stage_defs fresh_cleaner_def no_numeric_spec_def)
  show ?thesis
    by (simp add: a b c) (simp add: fresh_cleaner_def)
qed

subsection \<open>The profiling target\<close>

lemma run_all_cleaners_keeps:
  assumes "run_all_cleaners pd s = Inr s'"
  shows "cfg s' = cfg s \<and> local_path s' = local_path s"
  using run_all_cleaners_frame [of s pd] assms by (simp add: frame_def)

lemma html_profile_keeps:
  assumes "html_profile s = Inr (p, s')"
  shows "cfg s' = cfg s \<and> local_path s' = local_path s \<and> df_changed s' = df_changed s
         \<and> df s' = df s"
  using assms
  by (auto simp: html_profile_def log_msg_def split: if_splits option.splits)

text \<open>
  C8, as stated, fails. With both profile targets configured to the same file, the call
  made before a run that removed a duplicate row and set the flag, and the call made after
  it, return the same path.
\<close>

theorem same_profile_target_counterexample:
  "map_option fst (profile_clean_profile pd_example (fresh_cleaner same_target_spec repeated_table))
     = Some [''profile.html'']
   \<and> map_option (fst \<circ> snd)
        (profile_clean_profile pd_example (fresh_cleaner same_target_spec repeated_table))
     = Some [''profile.html'']
   \<and> map_option (df_changed \<circ> snd \<circ> snd)
        (profile_clean_profile pd_example (fresh_cleaner same_target_spec repeated_table))
     = Some True
   \<and> map_option (rows \<circ> df \<circ> snd \<circ> snd)
        (profile_clean_profile pd_example (fresh_cleaner same_target_spec repeated_table))
     = Some [[Num 1, Str ''x'']]
   \<and> rows (df (fresh_cleaner same_target_spec repeated_table))
     = [[Num 1, Str ''x''], [Num 1, Str ''x'']]"
  by (simp add: profile_clean_profile_def html_profile_def stage_defs fresh_cleaner_def
      same_target_spec_def repeated_table_def Path_def path_div_def is_absolute_def)

text \<open>
  C8, amended. \<^verbatim>\<open>html_profile\<close> selects its target from the mutation flag alone: the
  path is resolved from \<^verbatim>\<open>input_file_profile\<close> while the flag is false and from
  \<^verbatim>\<open>output_file_profile\<close> once it is true. Hence the same call made before and after a
  run that set the flag yields two distinct paths whenever the two configured targets
  resolve to different paths; the caller tracks nothing.
\<close>

theorem profile_target_follows_flag:
  assumes "cfg_get (cfg s) ''input_file_profile'' = PStr a"
    and "cfg_get (cfg s) ''output_file_profile'' = PStr b"
  shows "(\<not> df_changed s \<longrightarrow>
            profile_target (html_profile s) = Some (path_div (local_path s) (Path a)))
       \<and> (df_changed s \<longrightarrow>
            profile_target (html_profile s) = Some (path_div (local_path s) (Path b)))
       \<and> (\<forall>p1 s1 s2.
             \<not> df_changed s \<and> html_profile s = Inr (p1, s1)
             \<and> run_all_cleaners pd s1 = Inr s2 \<and> df_changed s2
             \<and> path_div (local_path s) (Path a) \<noteq> path_div (local_path s) (Path b)
             \<longrightarrow> p1 = path_div (local_path s) (Path a)
                 \<and> profile_target (html_profile s2) = Some (path_div (local_path s) (Path b))
                 \<and> profile_target (html_profile s2) \<noteq> Some p1)"
proof (intro conjI allI impI)
  show "profile_target (html_profile s) = Some (path_div (local_path s) (Path a))"
    if "\<not> df_changed s"
    using that assms by (simp add: html_profile_def profile_target_def)
  show "profile_target (html_profile s) = Some (path_div (local_path s) (Path b))"
    if "df_changed s"
    using that assms by (simp add: html_profile_def profile_target_def)
next
  fix p1 s1 s2
  assume h: "\<not> df_changed s \<and> html_profile s = Inr (p1, s1)
             \<and> run_all_cleaners pd s1 = Inr s2 \<and> df_changed s2
             \<and> path_div (local_path s) (Path a) \<noteq> path_div (local_path s) (Path b)"
  then have h1: "\<not> df_changed s" and h2: "html_profile s = Inr (p1, s1)"
    and h3: "run_all_cleaners pd s1 = Inr s2" and h4: "df_changed s2"
    and h5: "path_div (local_path s) (Path a) \<noteq> path_div (local_path s) (Path b)"
    by simp_all
  from h1 h2 assms have p1: "p1 = path_div (local_path s) (Path a)"
    by (simp add: html_profile_def)
  from html_profile_keeps [OF h2] run_all_cleaners_keeps [OF h3]
  have k: "cfg s2 = cfg s" "local_path s2 = local_path s" by simp_all
  with h4 assms have p2: "profile_target (html_profile s2) = Some (path_div (local_path s) (Path b))"
    by (simp add: html_profile_def profile_target_def)
  show "p1 = path_div (local_path s) (Path a)" by (rule p1)
  show "profile_target (html_profile s2) = Some (path_div (local_path s) (Path b))" by (rule p2)
  show "profile_target (html_profile s2) \<noteq> Some p1" using p1 p2 h5 by simp
qed


theorem profile_target_follows_flag_witness:
  "cfg_get (cfg (fresh_cleaner two_targets_spec repeated_table)) ''input_file_profile''
     = PStr ''profiles/input_file.html''
   \<and> cfg_get (cfg (fresh_cleaner two_targets_spec repeated_table)) ''output_file_profile''
     = PStr ''profiles/output_file.html''
   \<and> \<not> df_changed (fresh_cleaner two_targets_spec repeated_table)
   \<and> map_option fst
        (profile_clean_profile pd_example (fresh_cleaner two_targets_spec repeated_table))
     = Some [''profiles'', ''input_file.html'']
   \<and> map_option (fst \<circ> snd)
        (profile_clean_profile pd_example (fresh_cleaner two_targets_spec repeated_table))
     = Some [''profiles'', ''output_file.html'']"
proof -
  let ?s = "fresh_cleaner two_targets_spec repeated_table"
  define s1 where "s1 = log_msg INFO Profiling_finished
    (log_msg INFO (Profiling_source [''profiles'', ''input_file.html'']) ?s)"
  define s2 where "s2 = final (run_all_cleaners pd_example s1)"
  have a: "cfg_get (cfg ?s) ''input_file_profile'' = PStr ''profiles/input_file.html''"
    and b: "cfg_get (cfg ?s) ''output_file_profile'' = PStr ''profiles/output_file.html''"
    by (simp_all add: fresh_cleaner_def two_targets_spec_def cfg_get_def)
  have pa: "path_div (local_path ?s) (Path ''profiles/input_file.html'')
            = [''profiles'', ''input_file.html'']"
    and pb: "path_div (local_path ?s) (Path ''profiles/output_file.html'')
            = [''profiles'', ''output_file.html'']"
    by (simp_all add: fresh_cleaner_def Path_def path_div_def is_absolute_def)
  have h1: "\<not> df_changed ?s"
    by (simp add: fresh_cleaner_def)
  have h2: "html_profile ?s = Inr ([''profiles'', ''input_file.html''], s1)"
    using a pa h1 by (simp add: html_profile_def s1_def)
  have r: "run_all_cleaners pd_example s1
           = Inr (s1\<lparr>df := \<lparr>columns = [''A'', ''B''], rows = [[Num 1, Str ''x'']]\<rparr>,
                    df_changed := True,
                    logged := logged s1 @ [(INFO, Removing_rows)]\<rparr>)"
    by (simp add: s1_def stage_defs fresh_cleaner_def two_targets_spec_def repeated_table_def)
  then have h3: "run_all_cleaners pd_example s1 = Inr s2"
    by (simp add: s2_def)
  have h4: "df_changed s2"
    using r by (simp add: s2_def)
  have h5: "path_div (local_path ?s) (Path ''profiles/input_file.html'')
            \<noteq> path_div (local_path ?s) (Path ''profiles/output_file.html'')"
    by (simp add: pa pb)
  from profile_target_follows_flag [OF a b, of pd_example] h1 h2 h3 h4 h5
  have t: "profile_target (html_profile s2)
           = Some (path_div (local_path ?s) (Path ''profiles/output_file.html''))"
    by blast
  then obtain s3 where "html_profile s2 = Inr ([''profiles'', ''output_file.html''], s3)"
    by (cases "html_profile s2") (auto simp: profile_target_def pb)
  with h2 h3 a b h1 show ?thesis
    by (simp add: profile_clean_profile_def)
qed

subsection \<open>Casts that fail\<close>

lemma columns_set_col [simp]: "columns (set_col d c vs) = columns d"
  by (simp add: set_col_def split: option.split)

lemma df_log_msg [simp]: "df (log_msg l m s) = df s"
  by (simp add: log_msg_def)

lemma astype_loop_recovers:
  "casts_recover pd ty cols (df s) \<Longrightarrow>
     returns (astype_loop pd ty cols s) (\<lambda>s'. columns (df s') = columns (df s))"
proof (induction cols arbitrary: s)
  case Nil
  show ?case by simp
next
  case (Cons col cols)
  let ?s1 = "log_msg INFO (Running_astype ty col) s"
  from Cons.prems obtain vs where g: "get_col (df s) col = Some vs"
    by (auto split: option.splits)
  show ?case
  proof (cases "astype pd (type_map ty) vs")
    case (Inr ws)
    with Cons.prems g have "casts_recover pd ty cols (set_col (df s) col ws)" by simp
    then have "returns (astype_loop pd ty cols (?s1\<lparr>df := set_col (df ?s1) col ws\<rparr>))
            (\<lambda>s'. columns (df s') = columns (df (?s1\<lparr>df := set_col (df ?s1) col ws\<rparr>)))"
      by (intro Cons.IH) simp
    with g Inr show ?thesis by (simp add: Let_def)
  next
    case (Inl e)
    with Cons.prems g have e: "is_value_error e" and r: "casts_recover pd ty cols (df s)"
      by simp_all
    from r have "returns (astype_loop pd ty cols (log_msg ERROR (Astype_failed col ty) ?s1))
            (\<lambda>s'. columns (df s') = columns (df (log_msg ERROR (Astype_failed col ty) ?s1)))"
      by (intro Cons.IH) simp
    with g Inl e show ?thesis by (simp add: Let_def)
  qed
qed

lemma astype_loop_returned:
  "astype_loop pd ty cols s = Inr s' \<Longrightarrow> casts_recover pd ty cols (df s)"
proof (induction cols arbitrary: s)
  case Nil
  show ?case by simp
next
  case (Cons col cols)
  let ?s1 = "log_msg INFO (Running_astype ty col) s"
  from Cons.prems obtain vs where g: "get_col (df s) col = Some vs"
    by (auto simp: Let_def split: option.splits)
  show ?case
  proof (cases "astype pd (type_map ty) vs")
    case (Inr ws)
    with Cons.prems g
    have "astype_loop pd ty cols (?s1\<lparr>df := set_col (df ?s1) col ws\<rparr>) = Inr s'"
      by (simp add: Let_def)
    from Cons.IH [OF this] g Inr show ?thesis by simp
  next
    case (Inl e)
    with Cons.prems g have e: "is_value_error e"
      and "astype_loop pd ty cols (log_msg ERROR (Astype_failed col ty) ?s1) = Inr s'"
      by (simp_all add: Let_def split: if_splits)
    from Cons.IH [OF this(2)] g Inl e show ?thesis by simp
  qed
qed

lemma astype_loop_raises:
  assumes "\<not> casts_recover pd ty cols (df s)"
  shows "\<exists>e s'. astype_loop pd ty cols s = Inl (e, s')"
proof (cases "astype_loop pd ty cols s")
  case (Inl x)
  then show ?thesis by (cases x) auto
next
  case (Inr s')
  from astype_loop_returned [OF this] assms show ?thesis by simp
qed

text \<open>
  C6, as stated, fails. With \<^verbatim>\<open>int_col = ["B", "A"]\<close> and a table that has no column
  \<^verbatim>\<open>B\<close>, the cast of the listed column \<^verbatim>\<open>B\<close> raises \<^verbatim>\<open>KeyError\<close>, which the
  handler does not take: the exception surfaces from the stage and from the whole run,
  column \<^verbatim>\<open>A\<close> is never cast and no later stage runs.
\<close>

theorem absent_column_cast_counterexample:
  "raises (run_astype_conversion pd_example ''int'' (fresh_cleaner absent_column_spec digits_table))
     (KeyError ''B'')
   \<and> df (final (run_astype_conversion pd_example ''int''
                  (fresh_cleaner absent_column_spec digits_table))) = digits_table
   \<and> raises (run_all_cleaners pd_example (fresh_cleaner absent_column_spec digits_table))
       (KeyError ''B'')
   \<and> logged (final (run_all_cleaners pd_example (fresh_cleaner absent_column_spec digits_table)))
       = [(INFO, Running_astype ''int'' ''B'')]"
  by (simp add: raises_def stage_defs fresh_cleaner_def absent_column_spec_def digits_table_def
      get_col_def)

text \<open>
  C6, amended. During the explicit-cast stage, if casting a listed column that is in the
  table raises \<^verbatim>\<open>ValueError\<close>, the table is left exactly as it was before the attempt,
  an error-level message is logged, and the loop goes on with the remaining listed
  columns from that state. The loop returns, so that the later type categories and
  stages run, exactly when every listed column is in the table and each cast the run
  makes either succeeds or raises \<^verbatim>\<open>ValueError\<close>; otherwise the exception surfaces.
  Example: \<^verbatim>\<open>int_col = ["A"]\<close> with \<^verbatim>\<open>A = ["1", "bad", "3"]\<close> keeps the strings.
\<close>

theorem astype_value_error_recovered:
  "(get_col (df s) col = Some vs \<and> astype pd (type_map type_str) vs = Inl e \<and> is_value_error e
      \<longrightarrow> astype_loop pd type_str (col # cols) s
          = astype_loop pd type_str cols
              (s\<lparr>logged := logged s @ [(INFO, Running_astype type_str col),
                                         (ERROR, Astype_failed col type_str)]\<rparr>))
   \<and> (casts_recover pd type_str (col # cols) (df s)
      \<longrightarrow> returns (astype_loop pd type_str (col # cols) s)
            (\<lambda>s'. columns (df s') = columns (df s)))
   \<and> (\<not> casts_recover pd type_str (col # cols) (df s)
      \<longrightarrow> (\<exists>e' s'. astype_loop pd type_str (col # cols) s = Inl (e', s')))"
proof (intro conjI impI)
  assume "get_col (df s) col = Some vs \<and> astype pd (type_map type_str) vs = Inl e
          \<and> is_value_error e"
  then show "astype_loop pd type_str (col # cols) s
          = astype_loop pd type_str cols
              (s\<lparr>logged := logged s @ [(INFO, Running_astype type_str col),
                                         (ERROR, Astype_failed col type_str)]\<rparr>)"
    by (simp add: Let_def log_msg_def)
next
  assume "casts_recover pd type_str (col # cols) (df s)"
  then show "returns (astype_loop pd type_str (col # cols) s)
               (\<lambda>s'. columns (df s') = columns (df s))"
    by (rule astype_loop_recovers)
next
  assume "\<not> casts_recover pd type_str (col # cols) (df s)"
  then show "\<exists>e' s'. astype_loop pd type_str (col # cols) s = Inl (e', s')"
    by (rule astype_loop_raises)
qed

theorem astype_value_error_recovered_witness:
  "get_col (df ((fresh_cleaner cast_spec cast_table)\<lparr>df_changed := True\<rparr>)) ''A''
     = Some [Str ''1'', Str ''bad'', Str ''3'']
   \<and> astype pd_example (type_map ''int'') [Str ''1'', Str ''bad'', Str ''3''] = Inl ValueError
   \<and> is_value_error ValueError
   \<and> casts_recover pd_example ''int'' [''A'']
        (df ((fresh_cleaner cast_spec cast_table)\<lparr>df_changed := True\<rparr>))
   \<and> run_astype_conversion pd_example ''int'' (fresh_cleaner cast_spec cast_table)
       = Inr ((fresh_cleaner cast_spec cast_table)
                \<lparr>df_changed := True,
                 logged := [(INFO, Running_astype ''int'' ''A''),
                            (ERROR, Astype_failed ''A'' ''int'')]\<rparr>)
   \<and> returns (run_astype_conversion pd_example ''int'' (fresh_cleaner cast_spec cast_table))
       (\<lambda>s'. df s' = cast_table)
   \<and> returns (astype_loop pd_example ''int'' [''A'']
                ((fresh_cleaner cast_spec cast_table)\<lparr>df_changed := True\<rparr>))
       (\<lambda>s'. columns (df s') = [''A''])"
proof -
  let ?s = "(fresh_cleaner cast_spec cast_table)\<lparr>df_changed := True\<rparr>"
  note t = astype_value_error_recovered
         [where s = ?s and col = "''A''" and cols = "[]" and pd = pd_example
            and type_str = "''int''" and vs = "[Str ''1'', Str ''bad'', Str ''3'']"
            and e = ValueError]
  have g: "get_col (df ?s) ''A'' = Some [Str ''1'', Str ''bad'', Str ''3'']"
    by (simp add: fresh_cleaner_def cast_table_def get_col_def cell_at_def)
  have a: "astype pd_example (type_map ''int'') [Str ''1'', Str ''bad'', Str ''3''] = Inl ValueError"
    by (simp add: pd_example_def type_map_def int_of_string_def digit_val_def)
  have v: "is_value_error ValueError" by simp
  have c: "casts_recover pd_example ''int'' [''A''] (df ?s)"
    using g a by simp
  have cs: "columns (df ?s) = [''A'']"
    by (simp add: fresh_cleaner_def cast_table_def)
  have r: "run_astype_conversion pd_example ''int'' (fresh_cleaner cast_spec cast_table)
           = astype_loop pd_example ''int'' [''A''] ?s"
    by (simp add: run_astype_conversion_def cols_choice_def cfg_get_def fresh_cleaner_def
        cast_spec_def)
  have l: "logged ?s = []"
    by (simp add: fresh_cleaner_def)
  from t g a v
  have "astype_loop pd_example ''int'' [''A''] ?s
        = astype_loop pd_example ''int'' []
            (?s\<lparr>logged := logged ?s @ [(INFO, Running_astype ''int'' ''A''),
                                       (ERROR, Astype_failed ''A'' ''int'')]\<rparr>)"
    by blast
  with r l have e: "run_astype_conversion pd_example ''int'' (fresh_cleaner cast_spec cast_table)
       = Inr ((fresh_cleaner cast_spec cast_table)
                \<lparr>df_changed := True,
                 logged := [(INFO, Running_astype ''int'' ''A''),
                            (ERROR, Astype_failed ''A'' ''int'')]\<rparr>)"
    by simp
  have f: "returns (run_astype_conversion pd_example ''int'' (fresh_cleaner cast_spec cast_table))
       (\<lambda>s'. df s' = cast_table)"
    by (simp add: e) (simp add: fresh_cleaner_def)
  from t c have "returns (astype_loop pd_example ''int'' [''A''] ?s)
       (\<lambda>s'. columns (df s') = columns (df ?s))"
    by blast
  then have k: "returns (astype_loop pd_example ''int'' [''A''] ?s)
       (\<lambda>s'. columns (df s') = [''A''])"
    by (simp only: cs)
  from g a v c e f k show ?thesis by blast
qed

subsection \<open>Outlier removal is a fold over the listed columns\<close>

lemma select_by_cells:
  "map fst (filter snd (zip xs (map (\<lambda>x. P (f x)) xs))) = filter (\<lambda>x. P (f x)) xs"
  by (induction xs) auto

lemma filter_step_Inl: "foldl filter_step (Inl x) cs = Inl x"
  by (induction cs) (simp_all add: filter_step_def)

lemma filter_columns_Nil: "filter_columns [] d = Inr d"
  by (simp add: filter_columns_def)

lemma filter_columns_Cons:
  "filter_columns (c # cs) d =
     (case filter_column c d of Inl e \<Rightarrow> Inl (e, d) | Inr d' \<Rightarrow> filter_columns cs d')"
  by (simp add: filter_columns_def filter_step_def filter_step_Inl split: sum.split)

lemma outliers_loop_fold:
  "outliers_loop cols s =
     (case filter_columns cols (df s) of
        Inl (e, d) \<Rightarrow> Inl (e, s\<lparr>df := d\<rparr>)
      | Inr d \<Rightarrow> Inr (s\<lparr>df := d\<rparr>))"
proof (induction cols arbitrary: s)
  case Nil
  show ?case by (simp add: filter_columns_Nil)
next
  case (Cons col cols)
  show ?case
  proof (cases "col_index (columns (df s)) col")
    case None
    then show ?thesis
      by (simp add: filter_columns_Cons filter_column_def get_col_def)
  next
    case (Some i)
    let ?vs = "map (\<lambda>r. cell_at r i) (rows (df s))"
    show ?thesis
    proof (cases "quantile ?vs (1 / 4)")
      case (Inl e)
      with Some show ?thesis
        by (simp add: filter_columns_Cons filter_column_def get_col_def)
    next
      case Q1: (Inr Q1)
      show ?thesis
      proof (cases "quantile ?vs (3 / 4)")
        case (Inl e)
        with Some Q1 show ?thesis
          by (simp add: filter_columns_Cons filter_column_def get_col_def)
      next
        case Q3: (Inr Q3)
        have sel: "select_rows (df s)
               (map (\<lambda>r. cell_ge (cell_at r i) (sc_sub Q1 (sc_scale (3 / 2) (sc_sub Q1 Q3)))
                        \<and> cell_le (cell_at r i) (sc_add Q3 (sc_scale (3 / 2) (sc_sub Q1 Q3))))
                  (rows (df s)))
             = (df s)\<lparr>rows := filter (\<lambda>r. in_bounds (cell_at r i) (outlier_bounds Q1 Q3))
                                  (rows (df s))\<rparr>"
          using select_by_cells [of "rows (df s)"
              "\<lambda>v. cell_ge v (sc_sub Q1 (sc_scale (3 / 2) (sc_sub Q1 Q3)))
                    \<and> cell_le v (sc_add Q3 (sc_scale (3 / 2) (sc_sub Q1 Q3)))" "\<lambda>r. cell_at r i"]
          by (simp add: select_rows_def in_bounds_def outlier_bounds_def)
        show ?thesis
          using Some Q1 Q3
          by (simp add: filter_columns_Cons filter_column_def get_col_def Let_def comp_def sel
              Cons.IH split: sum.split prod.split)
      qed
    qed
  qed
qed


lemma clean_quantile_outliers_fold:
  assumes "truthy (cfg_get (cfg s) ''quantile_ouliers_col'')"
    and "py_iter (cfg_get (cfg s) ''quantile_ouliers_col'') = Some cols"
  shows "clean_quantile_outliers s =
     (case filter_columns cols (df s) of
        Inl (e, d) \<Rightarrow> Inl (e, s\<lparr>df := d\<rparr>)
      | Inr d \<Rightarrow> Inr (s\<lparr>df := d\<rparr>))"
  using assms by (simp add: clean_quantile_outliers_def outliers_loop_fold)

lemma in_bounds_Num:
  "in_bounds (Num v) (outlier_bounds (Some x) (Some y))
     \<longleftrightarrow> x - 3 / 2 * (x - y) \<le> v \<and> v \<le> y + 3 / 2 * (x - y)"
  by (simp add: in_bounds_def outlier_bounds_def sc_scale_def)

text \<open>
  On a table where the rows that column \<^verbatim>\<open>A\<close> removes are the ones that spread column
  \<^verbatim>\<open>B\<close>, filtering by \<^verbatim>\<open>A\<close> and then \<^verbatim>\<open>B\<close> keeps three rows, and filtering by
  \<^verbatim>\<open>B\<close> first keeps none: each column's quartiles are those of the rows still there.
\<close>

lemma fold_ab:
  "filter_columns [''A'', ''B''] ab_table
     = Inr \<lparr>columns = [''A'', ''B''],
            rows = [[Num 5, Num 1], [Num 5, Num 1], [Num 5, Num 1]]\<rparr>"
  by code_simp

lemma fold_ba:
  "filter_columns [''B'', ''A''] ab_table = Inr \<lparr>columns = [''A'', ''B''], rows = []\<rparr>"
  by code_simp

text \<open>
  C5. With a non-empty \<^verbatim>\<open>quantile_ouliers_col\<close>, the outlier stage is the fold of the
  one-column step over the list, in list order: each step takes the first and third
  quartile of the column's values in the table the previous steps left, sets the spread
  to \<open>Q1 - Q3\<close> and the bounds to \<open>Q1 - 1.5 * spread\<close> and \<open>Q3 + 1.5 * spread\<close>, and
  retains the rows whose value lies within them. The rest of the list runs on the
  filtered table only, so a removed row takes no part in later quartiles. A step that
  raises ends the stage with the table as it then is.
\<close>

theorem outliers_sequential_fold:
  assumes "truthy (cfg_get (cfg s) ''quantile_ouliers_col'')"
    and "py_iter (cfg_get (cfg s) ''quantile_ouliers_col'') = Some cols"
  shows "clean_quantile_outliers s =
           (case filter_columns cols (df s) of
              Inl (e, d) \<Rightarrow> Inl (e, s\<lparr>df := d\<rparr>)
            | Inr d \<Rightarrow> Inr (s\<lparr>df := d\<rparr>))
       \<and> (\<forall>c cs d. filter_columns (c # cs) d =
             (case filter_column c d of
                Inl e \<Rightarrow> Inl (e, d)
              | Inr d' \<Rightarrow> filter_columns cs d'))
       \<and> (\<forall>x y v. in_bounds (Num v) (outlier_bounds (Some x) (Some y))
             \<longleftrightarrow> x - 3 / 2 * (x - y) \<le> v \<and> v \<le> y + 3 / 2 * (x - y))"
  using clean_quantile_outliers_fold [OF assms] filter_columns_Cons in_bounds_Num
  by blast

theorem outliers_sequential_fold_witness:
  "truthy (cfg_get (cfg (fresh_cleaner outliers_ab_spec ab_table)) ''quantile_ouliers_col'')
   \<and> py_iter (cfg_get (cfg (fresh_cleaner outliers_ab_spec ab_table)) ''quantile_ouliers_col'')
       = Some [''A'', ''B'']
   \<and> returns (clean_quantile_outliers (fresh_cleaner outliers_ab_spec ab_table))
       (\<lambda>s'. rows (df s') = [[Num 5, Num 1], [Num 5, Num 1], [Num 5, Num 1]])"
proof -
  let ?s = "fresh_cleaner outliers_ab_spec ab_table"
  have a: "truthy (cfg_get (cfg ?s) ''quantile_ouliers_col'')"
    and b: "py_iter (cfg_get (cfg ?s) ''quantile_ouliers_col'') = Some [''A'', ''B'']"
    by (simp_all add: fresh_cleaner_def outliers_ab_spec_def cfg_get_def)
  have d: "df ?s = ab_table" by (simp add: fresh_cleaner_def)
  from outliers_sequential_fold [OF a b]
  have "clean_quantile_outliers ?s =
           (case filter_columns [''A'', ''B''] (df ?s) of
              Inl (e, d) \<Rightarrow> Inl (e, ?s\<lparr>df := d\<rparr>)
            | Inr d \<Rightarrow> Inr (?s\<lparr>df := d\<rparr>))"
    by blast
  then have "returns (clean_quantile_outliers ?s)
       (\<lambda>s'. rows (df s') = [[Num 5, Num 1], [Num 5, Num 1], [Num 5, Num 1]])"
    by (simp add: d fold_ab)
  with a b show ?thesis by blast
qed

subsection \<open>Outlier removal drops rows with a missing value\<close>

lemma in_bounds_NA [simp]: "\<not> in_bounds NA b"
  by (cases "fst b") (simp_all add: in_bounds_def)

lemma quantile_raises: "quantile vs q = Inl e \<Longrightarrow> list_ex is_str vs"
  by (auto simp: quantile_def Let_def split: if_splits)

lemma filter_column_result:
  assumes "filter_column c d = Inr d'"
  shows "columns d' = columns d \<and> set (rows d') \<subseteq> set (rows d)
         \<and> (\<exists>i. col_index (columns d) c = Some i \<and> (\<forall>r \<in> set (rows d'). cell_at r i \<noteq> NA))"
proof (cases "col_index (columns d) c")
  case None
  with assms show ?thesis by (simp add: filter_column_def)
next
  case (Some i)
  with assms show ?thesis
    by (auto simp: filter_column_def split: sum.splits)
qed

lemma filter_columns_result:
  "filter_columns cs d = Inr d' \<Longrightarrow>
     columns d' = columns d \<and> set (rows d') \<subseteq> set (rows d)
     \<and> (\<forall>c \<in> set cs. \<exists>i. col_index (columns d) c = Some i
            \<and> (\<forall>r \<in> set (rows d'). cell_at r i \<noteq> NA))"
proof (induction cs arbitrary: d)
  case Nil
  then show ?case by (simp add: filter_columns_Nil)
next
  case (Cons c cs)
  from Cons.prems obtain d1 where s1: "filter_column c d = Inr d1"
    and r: "filter_columns cs d1 = Inr d'"
    by (auto simp: filter_columns_Cons split: sum.splits)
  from filter_column_result [OF s1] obtain i where
    c1: "columns d1 = columns d" and sub1: "set (rows d1) \<subseteq> set (rows d)"
    and i: "col_index (columns d) c = Some i" and na: "\<forall>r \<in> set (rows d1). cell_at r i \<noteq> NA"
    by blast
  from Cons.IH [OF r] have
    c2: "columns d' = columns d1" and sub2: "set (rows d') \<subseteq> set (rows d1)"
    and rest: "\<forall>c \<in> set cs. \<exists>i. col_index (columns d1) c = Some i
                 \<and> (\<forall>r \<in> set (rows d'). cell_at r i \<noteq> NA)"
    by blast+
  have "\<exists>j. col_index (columns d) c = Some j \<and> (\<forall>r \<in> set (rows d'). cell_at r j \<noteq> NA)"
    using i na sub2 by blast
  with rest c1 c2 sub1 sub2 show ?case by auto
qed

lemma filter_columns_returns:
  "\<forall>c \<in> set cs. \<exists>i. col_index (columns d) c = Some i
       \<and> (\<forall>r \<in> set (rows d). \<not> is_str (cell_at r i))
   \<Longrightarrow> \<exists>d'. filter_columns cs d = Inr d'"
proof (induction cs arbitrary: d)
  case Nil
  show ?case by (simp add: filter_columns_Nil)
next
  case (Cons c cs)
  from Cons.prems obtain i where i: "col_index (columns d) c = Some i"
    and ns: "\<forall>r \<in> set (rows d). \<not> is_str (cell_at r i)"
    by auto
  have no: "\<not> list_ex is_str (map (\<lambda>r. cell_at r i) (rows d))"
    using ns by (simp add: list_ex_iff)
  have "\<exists>d1. filter_column c d = Inr d1"
    using i no quantile_raises [of "map (\<lambda>r. cell_at r i) (rows d)"]
    by (auto simp: filter_column_def split: sum.splits)
  then obtain d1 where s1: "filter_column c d = Inr d1" by blast
  from filter_column_result [OF s1] have
    c1: "columns d1 = columns d" and sub1: "set (rows d1) \<subseteq> set (rows d)"
    by blast+
  have "\<forall>c \<in> set cs. \<exists>i. col_index (columns d1) c = Some i
          \<and> (\<forall>r \<in> set (rows d1). \<not> is_str (cell_at r i))"
    using Cons.prems c1 sub1 by (auto; blast)
  from Cons.IH [OF this] s1 show ?case
    by (simp add: filter_columns_Cons)
qed


lemma get_col_cells:
  "col_index (columns d) c = Some i \<Longrightarrow> get_col d c = Some (map (\<lambda>r. cell_at r i) (rows d))"
  by (simp add: get_col_def)

text \<open>
  With missing-row removal disabled, the table with gaps keeps only the two rows that
  have a value in both listed columns.
\<close>

lemma gaps_rows:
  "filter_columns [''A'', ''B''] gaps_table
     = Inr \<lparr>columns = [''A'', ''B''], rows = [[Num 5, Num 1], [Num 5, Num 1]]\<rparr>"
  by code_simp

text \<open>
  C10. A missing value satisfies neither bound comparison, so the outlier stage removes
  every row whose value in the column being processed is missing. Whenever the stage
  returns, the columns are as before, the rows are rows of the table it started from, and
  each listed column holds no missing value; the stage does return when every listed
  column is in the table and holds no string. The \<^verbatim>\<open>drop_na\<close> option plays no part.
\<close>

theorem outliers_drop_missing:
  assumes "truthy (cfg_get (cfg s) ''quantile_ouliers_col'')"
    and "py_iter (cfg_get (cfg s) ''quantile_ouliers_col'') = Some cols"
  shows "(\<forall>s'. clean_quantile_outliers s = Inr s' \<longrightarrow>
            columns (df s') = columns (df s) \<and> set (rows (df s')) \<subseteq> set (rows (df s))
            \<and> (\<forall>c \<in> set cols. \<exists>vs. get_col (df s') c = Some vs \<and> NA \<notin> set vs))
       \<and> ((\<forall>c \<in> set cols. \<exists>vs. get_col (df s) c = Some vs \<and> \<not> list_ex is_str vs)
            \<longrightarrow> (\<exists>s'. clean_quantile_outliers s = Inr s'))"
proof (intro conjI allI impI)
  fix s'
  assume r: "clean_quantile_outliers s = Inr s'"
  with clean_quantile_outliers_fold [OF assms]
  obtain d' where f: "filter_columns cols (df s) = Inr d'" and s': "s' = s\<lparr>df := d'\<rparr>"
    by (auto split: sum.splits prod.splits)
  from filter_columns_result [OF f] have
    c: "columns d' = columns (df s)" and sub: "set (rows d') \<subseteq> set (rows (df s))"
    and na: "\<forall>c \<in> set cols. \<exists>i. col_index (columns (df s)) c = Some i
               \<and> (\<forall>r \<in> set (rows d'). cell_at r i \<noteq> NA)"
    by blast+
  show "columns (df s') = columns (df s)" using c s' by simp
  show "set (rows (df s')) \<subseteq> set (rows (df s))" using sub s' by simp
  show "\<forall>c \<in> set cols. \<exists>vs. get_col (df s') c = Some vs \<and> NA \<notin> set vs"
  proof
    fix x
    assume "x \<in> set cols"
    with na obtain i where i: "col_index (columns (df s)) x = Some i"
      and n: "\<forall>r \<in> set (rows d'). cell_at r i \<noteq> NA"
      by blast
    from i c have "get_col d' x = Some (map (\<lambda>r. cell_at r i) (rows d'))"
      by (simp add: get_col_cells)
    moreover from n have "NA \<notin> set (map (\<lambda>r. cell_at r i) (rows d'))"
      by auto
    ultimately show "\<exists>vs. get_col (df s') x = Some vs \<and> NA \<notin> set vs"
      using s' by simp
  qed
next
  assume h: "\<forall>c \<in> set cols. \<exists>vs. get_col (df s) c = Some vs \<and> \<not> list_ex is_str vs"
  have "\<forall>c \<in> set cols. \<exists>i. col_index (columns (df s)) c = Some i
          \<and> (\<forall>r \<in> set (rows (df s)). \<not> is_str (cell_at r i))"
  proof
    fix x
    assume "x \<in> set cols"
    with h obtain vs where g: "get_col (df s) x = Some vs" and n: "\<not> list_ex is_str vs"
      by blast
    from g obtain i where i: "col_index (columns (df s)) x = Some i"
      and vs: "vs = map (\<lambda>r. cell_at r i) (rows (df s))"
      by (auto simp: get_col_def)
    from n vs have "\<forall>r \<in> set (rows (df s)). \<not> is_str (cell_at r i)"
      by (simp add: list_ex_iff)
    with i show "\<exists>i. col_index (columns (df s)) x = Some i
          \<and> (\<forall>r \<in> set (rows (df s)). \<not> is_str (cell_at r i))"
      by blast
  qed
  from filter_columns_returns [OF this] obtain d' where "filter_columns cols (df s) = Inr d'"
    by blast
  with clean_quantile_outliers_fold [OF assms]
  show "\<exists>s'. clean_quantile_outliers s = Inr s'" by simp
qed

theorem outliers_drop_missing_witness:
  "truthy (cfg_get (cfg (fresh_cleaner gaps_spec gaps_table)) ''quantile_ouliers_col'')
   \<and> py_iter (cfg_get (cfg (fresh_cleaner gaps_spec gaps_table)) ''quantile_ouliers_col'')
       = Some [''A'', ''B'']
   \<and> \<not> truthy (cfg_get (cfg (fresh_cleaner gaps_spec gaps_table)) ''drop_na'')
   \<and> get_col (df (fresh_cleaner gaps_spec gaps_table)) ''A''
       = Some [Num 5, NA, Num 5, Num 5, NA]
   \<and> get_col (df (fresh_cleaner gaps_spec gaps_table)) ''B''
       = Some [Num 1, Num 1, NA, Num 1, NA]
   \<and> clean_quantile_outliers (fresh_cleaner gaps_spec gaps_table)
       = Inr (final (clean_quantile_outliers (fresh_cleaner gaps_spec gaps_table)))
   \<and> (\<exists>vs. get_col (df (final (clean_quantile_outliers (fresh_cleaner gaps_spec gaps_table))))
               ''A'' = Some vs \<and> NA \<notin> set vs)
   \<and> (\<exists>vs. get_col (df (final (clean_quantile_outliers (fresh_cleaner gaps_spec gaps_table))))
               ''B'' = Some vs \<and> NA \<notin> set vs)"
proof -
  let ?s = "fresh_cleaner gaps_spec gaps_table"
  have a: "truthy (cfg_get (cfg ?s) ''quantile_ouliers_col'')"
    and b: "py_iter (cfg_get (cfg ?s) ''quantile_ouliers_col'') = Some [''A'', ''B'']"
    and n: "\<not> truthy (cfg_get (cfg ?s) ''drop_na'')"
    by (simp_all add: fresh_cleaner_def gaps_spec_def cfg_get_def)
  have ga: "get_col (df ?s) ''A'' = Some [Num 5, NA, Num 5, Num 5, NA]"
    and gb: "get_col (df ?s) ''B'' = Some [Num 1, Num 1, NA, Num 1, NA]"
    by (simp_all add: fresh_cleaner_def gaps_table_def get_col_def cell_at_def)
  have h: "\<forall>c \<in> set [''A'', ''B''].
             \<exists>vs. get_col (df ?s) c = Some vs \<and> \<not> list_ex is_str vs"
    by (simp add: ga gb)
  note t = outliers_drop_missing [OF a b]
  from t h obtain s' where r: "clean_quantile_outliers ?s = Inr s'"
    by blast
  with t have "\<forall>c \<in> set [''A'', ''B'']. \<exists>vs. get_col (df s') c = Some vs \<and> NA \<notin> set vs"
    by blast
  with r a b n ga gb show ?thesis by simp
qed

end
